theory Spec2Isabelle
  imports Complex_Main "HOL-Library.Word"
begin

section \<open>Python values\<close>

text \<open>
  The development embeds the batch extraction engine of
  \<^verbatim>\<open>stdatalog_core/HSD/HSDatalog_v2.py\<close>: \<^verbatim>\<open>__process_datalog\<close> with its nested
  \<^verbatim>\<open>extract_data_and_timestamps\<close> (frame decoder and unit scaler) and
  \<^verbatim>\<open>get_data_and_timestamps_batch\<close> with its nested \<^verbatim>\<open>__extract_data\<close> (window locator
  and packet stream reader).

  Python integers are \<open>int\<close>; sizes the descriptor declares (dimensions, sample counts)
  are \<open>nat\<close>. The size of a buffer is below \<open>2^53\<close>, so that the quotient of two sizes
  that the source computes as \<^verbatim>\<open>int(a / b)\<close> is the integer quotient. A raised exception is the left summand of a result; the error
  \<open>UninitialisedRead\<close> stands for a read of the part of a preallocated buffer
  (\<^verbatim>\<open>np.empty\<close>) that nothing has been written to, where the source returns whatever
  the memory holds, and \<open>OutsideModel\<close> for a telemetry packet shorter than its
  timestamp, the one input on which the embedding does not follow the source.
\<close>

datatype error =
    ZeroDivisionError | TypeError | ValueError | IndexError | KeyError | StructError
  | OSError | UnboundLocalError | RuntimeError | DataCorruptedException
  | OverflowError | NoDataAtIndexError | MissingFileForSensorError | UninitialisedRead
  | OutsideModel

definition ebind :: "error + 'a \<Rightarrow> ('a \<Rightarrow> error + 'b) \<Rightarrow> error + 'b" where
  "ebind m f = (case m of Inl e \<Rightarrow> Inl e | Inr x \<Rightarrow> f x)"

definition unbound :: "'a option \<Rightarrow> error + 'a" where
  \<comment> \<open>reading a local variable that no branch has assigned\<close>
  "unbound v = (case v of None \<Rightarrow> Inl UnboundLocalError | Some x \<Rightarrow> Inr x)"

type_synonym byte = "8 word"

subsection \<open>Floating-point values\<close>

text \<open>
  A double is a rational, an infinity or not-a-number. Every arithmetic operation is the
  exact operation on the rationals followed by the rounding of IEEE 754 to the nearest
  representable number, ties to even, with overflow to an infinity: to binary64 for the
  Python floats and the \<^verbatim>\<open>numpy.float64\<close> values, to binary32 for the
  \<^verbatim>\<open>numpy.float32\<close> values. The sign of a zero is not modelled. A number of the
  descriptor or an integer that enters float arithmetic is the double nearest to it (the
  double of the same value below \<open>2^53\<close>). Comparisons with not-a-number are false.
\<close>

datatype fl = Fin rat | PInf | NInf | NaN

function pow2 :: "int \<Rightarrow> int" where
  \<comment> \<open>\<open>2 ^ e\<close> for \<open>e \<ge> 0\<close>\<close>
  "pow2 e = (if e \<le> 0 then 1
             else if even e then (let h = pow2 (e div 2) in h * h)
             else 2 * pow2 (e - 1))"
  by pat_completeness auto
termination
  by (relation "measure nat") auto

definition scale2 :: "rat \<Rightarrow> int \<Rightarrow> rat" where
  \<comment> \<open>\<open>x * 2 ^ e\<close>\<close>
  "scale2 x e = (if 0 \<le> e then x * of_int (pow2 e) else x / of_int (pow2 (- e)))"

function bit_length :: "int \<Rightarrow> int" where
  "bit_length n = (if n \<le> 0 then 0 else 1 + bit_length (n div 2))"
  by pat_completeness auto
termination
  by (relation "measure nat") auto

definition ilog2 :: "rat \<Rightarrow> int" where
  \<comment> \<open>the exponent \<open>e\<close> with \<open>2 ^ e \<le> x < 2 ^ (e + 1)\<close>, for \<open>x > 0\<close>\<close>
  "ilog2 x =
     (let (a, b) = quotient_of x; e = bit_length a - bit_length b
      in if (if 0 \<le> e then pow2 e * b \<le> a else b \<le> a * pow2 (- e)) then e else e - 1)"

definition round_half_even :: "rat \<Rightarrow> int" where
  "round_half_even x =
     (let f = \<lfloor>x\<rfloor>; d = x - of_int f
      in if d < 1 / 2 then f else if 1 / 2 < d then f + 1 else if even f then f else f + 1)"

definition round_ieee :: "nat \<Rightarrow> int \<Rightarrow> int \<Rightarrow> rat \<Rightarrow> fl" where
  \<comment> \<open>rounding to the format with \<open>p\<close> significant bits and the exponents from \<open>emin\<close>
      to \<open>emax\<close>: the multiple of the unit in the last place of the binade of \<open>x\<close> (of
      the subnormal range below \<open>2 ^ emin\<close>) that is nearest to \<open>x\<close>\<close>
  "round_ieee p emin emax x =
     (if x = 0 then Fin 0
      else let e = max (ilog2 \<bar>x\<bar>) emin;
               q = scale2 1 (e - int p + 1);
               y = of_int (round_half_even (x / q)) * q
           in if y \<noteq> 0 \<and> emax < ilog2 \<bar>y\<bar> then (if 0 < x then PInf else NInf)
              else Fin y)"

definition rd64 :: "rat \<Rightarrow> fl" where
  "rd64 = round_ieee 53 (- 1022) 1023"

definition rd32 :: "rat \<Rightarrow> fl" where
  "rd32 = round_ieee 24 (- 126) 127"

fun isnan :: "fl \<Rightarrow> bool" where
  "isnan NaN = True"
| "isnan _ = False"

fun fl_neg :: "fl \<Rightarrow> fl" where
  "fl_neg (Fin a) = Fin (- a)"
| "fl_neg PInf = NInf"
| "fl_neg NInf = PInf"
| "fl_neg NaN = NaN"

fun fl_abs :: "fl \<Rightarrow> fl" where
  "fl_abs (Fin a) = Fin \<bar>a\<bar>"
| "fl_abs PInf = PInf"
| "fl_abs NInf = PInf"
| "fl_abs NaN = NaN"

fun fl_sign :: "fl \<Rightarrow> int" where
  "fl_sign (Fin a) = (if a = 0 then 0 else if 0 < a then 1 else - 1)"
| "fl_sign PInf = 1"
| "fl_sign NInf = - 1"
| "fl_sign NaN = 0"

definition add_with :: "(rat \<Rightarrow> fl) \<Rightarrow> fl \<Rightarrow> fl \<Rightarrow> fl" where
  "add_with rd a b =
     (case (a, b) of
        (Fin x, Fin y) \<Rightarrow> rd (x + y)
      | (NaN, _) \<Rightarrow> NaN
      | (_, NaN) \<Rightarrow> NaN
      | (PInf, NInf) \<Rightarrow> NaN
      | (NInf, PInf) \<Rightarrow> NaN
      | (PInf, _) \<Rightarrow> PInf
      | (NInf, _) \<Rightarrow> NInf
      | (_, PInf) \<Rightarrow> PInf
      | (_, NInf) \<Rightarrow> NInf)"

definition mul_with :: "(rat \<Rightarrow> fl) \<Rightarrow> fl \<Rightarrow> fl \<Rightarrow> fl" where
  "mul_with rd a b =
     (case (a, b) of
        (Fin x, Fin y) \<Rightarrow> rd (x * y)
      | _ \<Rightarrow> if isnan a \<or> isnan b \<or> fl_sign a * fl_sign b = 0 then NaN
             else if 0 < fl_sign a * fl_sign b then PInf else NInf)"

definition div_with :: "(rat \<Rightarrow> fl) \<Rightarrow> fl \<Rightarrow> fl \<Rightarrow> fl" where
  \<comment> \<open>the division of IEEE 754, which numpy uses: a division by zero is an infinity or
      not-a-number\<close>
  "div_with rd a b =
     (case (a, b) of
        (Fin x, Fin y) \<Rightarrow>
          if y = 0 then (if x = 0 then NaN else if 0 < x then PInf else NInf)
          else rd (x / y)
      | (Fin x, PInf) \<Rightarrow> Fin 0
      | (Fin x, NInf) \<Rightarrow> Fin 0
      | (PInf, Fin y) \<Rightarrow> if 0 \<le> y then PInf else NInf
      | (NInf, Fin y) \<Rightarrow> if 0 \<le> y then NInf else PInf
      | _ \<Rightarrow> NaN)"

definition fl_add :: "fl \<Rightarrow> fl \<Rightarrow> fl" where
  "fl_add = add_with rd64"

definition fl_sub :: "fl \<Rightarrow> fl \<Rightarrow> fl" where
  "fl_sub a b = fl_add a (fl_neg b)"

definition fl_mul :: "fl \<Rightarrow> fl \<Rightarrow> fl" where
  "fl_mul = mul_with rd64"

definition fl_div :: "fl \<Rightarrow> fl \<Rightarrow> fl" where
  "fl_div = div_with rd64"

definition f32_mul :: "fl \<Rightarrow> fl \<Rightarrow> fl" where
  \<comment> \<open>the product of two \<^verbatim>\<open>float32\<close> values\<close>
  "f32_mul = mul_with rd32"

fun to_f32 :: "fl \<Rightarrow> fl" where
  \<comment> \<open>the conversion of a number to \<^verbatim>\<open>float32\<close>\<close>
  "to_f32 (Fin a) = rd32 a"
| "to_f32 x = x"

definition py_float :: "rat \<Rightarrow> fl" where
  \<comment> \<open>the double that a number of the descriptor, or an integer, is in float arithmetic\<close>
  "py_float = rd64"

fun fl_less :: "fl \<Rightarrow> fl \<Rightarrow> bool" where
  "fl_less (Fin a) (Fin b) = (a < b)"
| "fl_less NaN _ = False"
| "fl_less _ NaN = False"
| "fl_less PInf _ = False"
| "fl_less _ NInf = False"
| "fl_less NInf _ = True"
| "fl_less _ PInf = True"

definition fl_greater :: "fl \<Rightarrow> fl \<Rightarrow> bool" where
  "fl_greater a b = fl_less b a"

definition fl_eq :: "fl \<Rightarrow> fl \<Rightarrow> bool" where
  "fl_eq a b = (\<not> isnan a \<and> a = b)"

definition fl_ge :: "fl \<Rightarrow> fl \<Rightarrow> bool" where
  "fl_ge a b = (fl_less b a \<or> fl_eq a b)"

subsection \<open>Buffers\<close>

fun le_uint :: "byte list \<Rightarrow> int" where
  \<comment> \<open>the little-endian unsigned value of a byte string\<close>
  "le_uint [] = 0"
| "le_uint (b # bs) = uint b + 256 * le_uint bs"

definition le_int :: "byte list \<Rightarrow> int" where
  \<comment> \<open>the little-endian two's complement value of a byte string\<close>
  "le_int bs = (let n = le_uint bs; w = 8 * length bs in
                if 2 ^ (w - 1) \<le> n then n - 2 ^ w else n)"

definition ieee :: "nat \<Rightarrow> nat \<Rightarrow> int \<Rightarrow> fl" where
  \<comment> \<open>IEEE-754 binary interchange format with \<open>ew\<close> exponent and \<open>mw\<close> fraction bits\<close>
  "ieee ew mw n =
     (let m = n mod 2 ^ mw;
          e = (n div 2 ^ mw) mod 2 ^ ew;
          neg = (n div 2 ^ (mw + ew)) mod 2 = 1;
          bias = 2 ^ (ew - 1) - 1
      in if e = 2 ^ ew - 1 then (if m \<noteq> 0 then NaN else if neg then NInf else PInf)
         else let mag = (if e = 0 then scale2 (of_int m) (1 - bias - int mw)
                         else scale2 (of_int (2 ^ mw + m)) (e - bias - int mw))
              in Fin (if neg then - mag else mag))"

definition unpack_double :: "byte list \<Rightarrow> fl" where
  "unpack_double bs = ieee 11 52 (le_uint bs)"

definition unpack_I :: "byte list \<Rightarrow> error + int" where
  \<comment> \<open>\<^verbatim>\<open>struct.unpack('<I', b)[0]\<close>: the buffer must hold exactly 4 bytes\<close>
  "unpack_I bs = (if length bs = 4 then Inr (le_uint bs) else Inl StructError)"

fun chunks :: "nat \<Rightarrow> 'a list \<Rightarrow> 'a list list" where
  \<comment> \<open>consecutive pieces of \<open>k\<close> elements, for \<open>k > 0\<close> and a length that \<open>k\<close> divides\<close>
  "chunks k [] = []"
| "chunks k (x # xs) =
     (if k = 0 then [] else take k (x # xs) # chunks k (drop k (x # xs)))"

fun contains :: "string \<Rightarrow> string \<Rightarrow> bool" where
  \<comment> \<open>\<^verbatim>\<open>pat in s\<close> on Python strings\<close>
  "contains pat [] = (pat = [])"
| "contains pat (c # cs) = (take (length pat) (c # cs) = pat \<or> contains pat cs)"

subsection \<open>Element types\<close>

datatype np_type =
    Int8 | UInt8 | Int16 | UInt16 | Int24 | Int32 | UInt32 | Float32 | Float64

definition check_type_length :: "np_type \<Rightarrow> nat" where
  \<comment> \<open>Modelled from the spec: \<^verbatim>\<open>TypeConversion.check_type_length\<close> is not among the
      sources; it is the \<open>dtype_size\<close> of the frame layout, the byte width of one
      element in the raw file.\<close>
  "check_type_length t =
     (case t of Int8 \<Rightarrow> 1 | UInt8 \<Rightarrow> 1 | Int16 \<Rightarrow> 2 | UInt16 \<Rightarrow> 2 | Int24 \<Rightarrow> 3
              | Int32 \<Rightarrow> 4 | UInt32 \<Rightarrow> 4 | Float32 \<Rightarrow> 4 | Float64 \<Rightarrow> 8)"

definition get_np_dtype :: "np_type \<Rightarrow> np_type" where
  \<comment> \<open>Modelled from the spec: \<^verbatim>\<open>TypeConversion.get_np_dtype\<close> is not among the sources;
      the array type of an element type is the type itself, but for the 24-bit signed
      integers, which are widened to 32 bits.\<close>
  "get_np_dtype t = (if t = Int24 then Int32 else t)"

definition is_float_type :: "np_type \<Rightarrow> bool" where
  "is_float_type t = (t = Float32 \<or> t = Float64)"

definition decode_element :: "np_type \<Rightarrow> byte list \<Rightarrow> fl" where
  \<comment> \<open>the value of one little-endian element of a raw buffer\<close>
  "decode_element t bs =
     (case t of
        Float32 \<Rightarrow> ieee 8 23 (le_uint bs)
      | Float64 \<Rightarrow> ieee 11 52 (le_uint bs)
      | UInt8 \<Rightarrow> Fin (of_int (le_uint bs))
      | UInt16 \<Rightarrow> Fin (of_int (le_uint bs))
      | UInt32 \<Rightarrow> Fin (of_int (le_uint bs))
      | _ \<Rightarrow> Fin (of_int (le_int bs)))"

definition frombuffer :: "nat \<Rightarrow> np_type \<Rightarrow> byte list \<Rightarrow> error + fl list" where
  \<comment> \<open>\<^verbatim>\<open>np.frombuffer(buf, dtype)\<close> for elements of \<open>w\<close> bytes: the buffer must be a
      whole number of elements\<close>
  "frombuffer w t buf =
     (if w = 0 \<or> length buf mod w \<noteq> 0 then Inl ValueError
      else Inr (map (decode_element t) (chunks w buf)))"

definition frombuffer_typed :: "np_type \<Rightarrow> byte list \<Rightarrow> error + fl list" where
  \<comment> \<open>Modelled from the spec: \<^verbatim>\<open>TypeConversion.int24_buffer_to_int32_buffer\<close> is not
      among the sources; it is the 24-bit signed integer widening path, so a segment
      declared as 24-bit integers decodes group by group of 3 bytes, sign-extended. Every
      other segment is \<^verbatim>\<open>np.frombuffer(segment, dtype)\<close>.\<close>
  "frombuffer_typed t buf = frombuffer (check_type_length t) t buf"

section \<open>Descriptor and cursor\<close>

text \<open>
  The source keeps one dictionary per component, \<^verbatim>\<open>comp_status\<close> (\<^verbatim>\<open>ss_stat\<close>): the
  device's description of the component, which the engine only reads, and the resume
  state, which it writes. Here the two are separate records. A key that the source
  looks up with \<^verbatim>\<open>get\<close> and a default, or tests for presence, is an optional field.
\<close>

datatype component_type = SENSOR | ALGORITHM | ACTUATOR | OTHER_COMPONENT

datatype sensor_category = ISENSOR_CLASS_LIGHT | ISENSOR_CLASS_POWERMETER | ISENSOR_CLASS_OTHER

datatype algorithm_type = IALGORITHM_TYPE_FFT | IALGORITHM_TYPE_OTHER

datatype spts_field = SptsInt nat | SptsDict "nat option"

record descriptor =
  c_type :: component_type
  sensor_category :: sensor_category
  intermeasurement_time :: rat
  exposure_time :: rat
  adc_conversion_time :: rat
  measodr :: "rat option"
  odr :: "rat option"
  algorithm_type :: algorithm_type
  fft_sample_freq :: rat
  fft_length :: nat
  dim :: "nat option"
  data_type :: np_type
  samples_per_ts :: "spts_field option"
  sensitivity :: "rat option"
  st_ble_stream :: "(string \<times> bool) list"
  telemetries :: "(string \<times> bool) list"
  scaler_current :: rat
  scaler_voltage :: rat
  sd_dps :: nat
  usb_dps :: "nat option"
  ble_dps :: nat
  serial_dps :: nat

record cursor =
  last_index :: "int option"
  missing_bytes :: "int option"
  saved_bytes :: "int option"
  is_same_dps :: "bool option"
  prev_data_byte_counter :: "int option"
  is_first_chunk :: "bool option"
  ioffset :: "fl option"

definition fresh_cursor :: cursor where
  "fresh_cursor = \<lparr>last_index = None, missing_bytes = None, saved_bytes = None,
     is_same_dps = None, prev_data_byte_counter = None, is_first_chunk = None,
     ioffset = None\<rparr>"

definition get_or :: "'a option \<Rightarrow> 'a \<Rightarrow> 'a" where
  \<comment> \<open>\<^verbatim>\<open>d.get(key, default)\<close>\<close>
  "get_or v d = (case v of None \<Rightarrow> d | Some x \<Rightarrow> x)"

definition MC_SLOW_TELEMETRY_COMP_NAME :: string where
  "MC_SLOW_TELEMETRY_COMP_NAME = ''slow_mc_telemetries''"

definition MC_FAST_TELEMETRY_COMP_NAME :: string where
  "MC_FAST_TELEMETRY_COMP_NAME = ''fast_mc_telemetries''"

definition py_truediv :: "fl \<Rightarrow> fl \<Rightarrow> error + fl" where
  \<comment> \<open>\<^verbatim>\<open>a / b\<close> on Python numbers of which one is a float\<close>
  "py_truediv a b = (if fl_eq b (Fin 0) then Inl ZeroDivisionError else Inr (fl_div a b))"

definition int_truediv :: "int \<Rightarrow> int \<Rightarrow> error + fl" where
  \<comment> \<open>\<^verbatim>\<open>a / b\<close> on Python integers: the correctly rounded quotient\<close>
  "int_truediv a b =
     (if b = 0 then Inl ZeroDivisionError
      else case rd64 (of_int a / of_int b) of
             Fin q \<Rightarrow> Inr (Fin q)
           | _ \<Rightarrow> Inl OverflowError)"

definition py_int :: "rat \<Rightarrow> int" where
  \<comment> \<open>truncation towards zero\<close>
  "py_int x = (if 0 \<le> x then \<lfloor>x\<rfloor> else - \<lfloor>- x\<rfloor>)"

fun int_of_float :: "fl \<Rightarrow> error + int" where
  \<comment> \<open>\<^verbatim>\<open>int(x)\<close> on a float\<close>
  "int_of_float (Fin x) = Inr (py_int x)"
| "int_of_float NaN = Inl ValueError"
| "int_of_float _ = Inl OverflowError"

fun math_floor :: "fl \<Rightarrow> error + int" where
  "math_floor (Fin x) = Inr \<lfloor>x\<rfloor>"
| "math_floor NaN = Inl ValueError"
| "math_floor _ = Inl OverflowError"

fun math_ceil :: "fl \<Rightarrow> error + int" where
  "math_ceil (Fin x) = Inr \<lceil>x\<rceil>"
| "math_ceil NaN = Inl ValueError"
| "math_ceil _ = Inl OverflowError"

section \<open>Frame decoder and unit scaler: \<^verbatim>\<open>__process_datalog\<close>\<close>

subsection \<open>Frame layout\<close>

definition get_samples_per_ts :: "descriptor \<Rightarrow> nat" where
  \<comment> \<open>lines 789-793: an integer, or a dictionary with an optional \<^verbatim>\<open>val\<close>\<close>
  "get_samples_per_ts d =
     (case samples_per_ts d of
        None \<Rightarrow> 0
      | Some (SptsInt n) \<Rightarrow> n
      | Some (SptsDict v) \<Rightarrow> get_or v 0)"

definition enabled_names :: "(string \<times> bool) list \<Rightarrow> string list" where
  "enabled_names kvs = map fst (filter snd kvs)"

definition get_active_mc_telemetries_names :: "descriptor \<Rightarrow> string \<Rightarrow> string list option" where
  \<comment> \<open>lines 593-598; no branch for another name, so the method returns \<^verbatim>\<open>None\<close>\<close>
  "get_active_mc_telemetries_names d comp_name =
     (if comp_name = ''slow_mc_telemetries'' then Some (enabled_names (st_ble_stream d))
      else if comp_name = ''fast_mc_telemetries'' then Some (enabled_names (telemetries d))
      else None)"

definition resolve_samples_per_ts ::
  "string \<Rightarrow> descriptor \<Rightarrow> nat \<Rightarrow> nat \<Rightarrow> error + nat" where
  \<comment> \<open>lines 795-808, from the declared count, the data bytes of a frame and the byte
      width of an element\<close>
  "resolve_samples_per_ts sensor_name d dataframe_size data_type_byte_num =
     (let spts = get_samples_per_ts d;
          data1D_per_frame = dataframe_size div data_type_byte_num
      in case c_type d of
           SENSOR \<Rightarrow>
             (if spts \<noteq> 0 then Inr spts
              else if get_or (dim d) 1 = 0 then Inl ZeroDivisionError
              else Inr (data1D_per_frame div get_or (dim d) 1))
         | ALGORITHM \<Rightarrow>
             Inr (if algorithm_type d = IALGORITHM_TYPE_FFT then 1 else spts)
         | ACTUATOR \<Rightarrow>
             (if samples_per_ts d \<noteq> None then Inr spts
              else case get_active_mc_telemetries_names d sensor_name of
                     None \<Rightarrow> Inl UnboundLocalError
                   | Some names \<Rightarrow>
                       if length names = 0 then Inl ZeroDivisionError
                       else Inr (dataframe_size div data_type_byte_num div length names))
         | OTHER_COMPONENT \<Rightarrow> Inr spts)"

definition sensor_name_contains_mlc_ispu :: "string \<Rightarrow> bool" where
  "sensor_name_contains_mlc_ispu sensor_name =
     (contains ''_mlc'' sensor_name \<or> contains ''_ispu'' sensor_name)"

definition light_odr :: "descriptor \<Rightarrow> error + fl" where
  \<comment> \<open>line 618\<close>
  "light_odr d =
     (let imt = py_float (intermeasurement_time d);
          lim = fl_add (fl_div (py_float (exposure_time d)) (Fin 1000)) (Fin 6)
      in if fl_greater imt lim
         then py_truediv (Fin 1) (fl_div imt (Fin 1000))
         else py_truediv (Fin 1) (fl_div lim (Fin 1000)))"

definition effective_odr :: "descriptor \<Rightarrow> error + fl" where
  \<comment> \<open>lines 623-626 (and 914-916): \<^verbatim>\<open>measodr\<close>, or \<^verbatim>\<open>odr\<close> when it is absent or zero\<close>
  "effective_odr d =
     (case (if measodr d = None \<or> measodr d = Some 0 then odr d else measodr d) of
        None \<Rightarrow> Inl TypeError
      | Some r \<Rightarrow> Inr (py_float r))"

definition check_timestamps_of :: "bool \<Rightarrow> string \<Rightarrow> descriptor \<Rightarrow> bool option" where
  \<comment> \<open>lines 611-616, 628, 636: the repair switch, from the debug flag
      \<^verbatim>\<open>__checkTimestamps\<close>; no branch assigns it for another kind of component\<close>
  "check_timestamps_of checkTimestamps sensor_name d =
     (case c_type d of
        SENSOR \<Rightarrow>
          Some (if checkTimestamps then \<not> sensor_name_contains_mlc_ispu sensor_name
                else False)
      | ALGORITHM \<Rightarrow> Some False
      | ACTUATOR \<Rightarrow> Some False
      | OTHER_COMPONENT \<Rightarrow> None)"

definition frame_period_of :: "string \<Rightarrow> descriptor \<Rightarrow> nat \<Rightarrow> error + fl option" where
  \<comment> \<open>lines 617-640, for the resolved samples per timestamp\<close>
  "frame_period_of sensor_name d spts =
     (let n = py_float (of_nat spts)
      in case c_type d of
        SENSOR \<Rightarrow>
          (if sensor_category d = ISENSOR_CLASS_LIGHT then
             ebind (light_odr d) (\<lambda>r.
               if sensor_name_contains_mlc_ispu sensor_name then Inr (Some (Fin 0))
               else ebind (py_truediv n r) (\<lambda>p. Inr (Some p)))
           else if sensor_category d = ISENSOR_CLASS_POWERMETER then
             (if sensor_name_contains_mlc_ispu sensor_name then Inr (Some (Fin 0))
              else ebind (py_truediv (Fin 1)
                            (fl_div (py_float (adc_conversion_time d)) (Fin 1000000))) (\<lambda>r.
                   ebind (py_truediv n r) (\<lambda>p. Inr (Some p))))
           else
             (if sensor_name_contains_mlc_ispu sensor_name then Inr (Some (Fin 0))
              else ebind (effective_odr d) (\<lambda>r.
                   ebind (py_truediv n r) (\<lambda>p. Inr (Some p)))))
      | ALGORITHM \<Rightarrow>
          (if algorithm_type d = IALGORITHM_TYPE_FFT
           then ebind (py_truediv n (py_float (fft_sample_freq d))) (\<lambda>p. Inr (Some p))
           else Inr (Some (Fin 0)))
      | ACTUATOR \<Rightarrow>
          (if samples_per_ts d = None then Inr (Some (Fin 0))
           else case odr d of
                  None \<Rightarrow> Inl TypeError
                | Some r \<Rightarrow> ebind (py_truediv n (py_float r)) (\<lambda>p. Inr (Some p)))
      | OTHER_COMPONENT \<Rightarrow> Inr None)"

subsection \<open>Frames with an embedded timestamp\<close>

definition slice_assign :: "'a list \<Rightarrow> nat \<Rightarrow> 'a list \<Rightarrow> 'a list" where
  \<comment> \<open>\<^verbatim>\<open>xs[i:i+len(vs)] = vs\<close> on an array that holds the whole slice\<close>
  "slice_assign xs i vs = take i xs @ vs @ drop (i + length vs) xs"

definition first_double :: "byte list \<Rightarrow> error + fl" where
  \<comment> \<open>\<^verbatim>\<open>np.frombuffer(segment_ts, dtype='double')[0]\<close>\<close>
  "first_double seg =
     (if length seg mod 8 \<noteq> 0 then Inl ValueError
      else if seg = [] then Inl IndexError
      else Inr (unpack_double (take 8 seg)))"

definition ts_inconsistent :: "fl \<Rightarrow> fl \<Rightarrow> fl \<Rightarrow> bool" where
  \<comment> \<open>lines 673-674, for the timestamp of the frame and the one before it; \<^verbatim>\<open>0.1\<close> is
      the double nearest to one tenth\<close>
  "ts_inconsistent frame_period t tprev =
     (let delta_ts = fl_abs (fl_sub t tprev)
      in fl_less delta_ts (fl_mul (rd64 (1 / 10)) frame_period)
         \<or> fl_greater delta_ts (fl_mul (Fin 10) frame_period)
         \<or> isnan t \<or> isnan tprev)"

definition segment_data_of :: "nat \<Rightarrow> nat \<Rightarrow> byte list \<Rightarrow> nat \<Rightarrow> byte list" where
  \<comment> \<open>lines 655-657\<close>
  "segment_data_of dataframe_size frame_size rnd ii =
     take dataframe_size (drop (ii * frame_size) rnd)"

definition segment_ts_of :: "nat \<Rightarrow> nat \<Rightarrow> byte list \<Rightarrow> nat \<Rightarrow> byte list" where
  \<comment> \<open>line 662\<close>
  "segment_ts_of dataframe_size frame_size rnd ii =
     take (frame_size - dataframe_size) (drop (ii * frame_size + dataframe_size) rnd)"

text \<open>
  The state of the loop over the frames: the timestamps appended so far, the data array
  (allocated with zeros for all the frames) and the indices of the frames for which a
  warning has been logged.
\<close>

type_synonym frame_state = "fl list \<times> fl list \<times> nat list"

definition frame_step ::
  "bool option \<Rightarrow> fl option \<Rightarrow> np_type \<Rightarrow> nat \<Rightarrow> nat \<Rightarrow> nat \<Rightarrow> byte list \<Rightarrow> nat
   \<Rightarrow> frame_state \<Rightarrow> error + frame_state" where
  \<comment> \<open>lines 655-677, one frame\<close>
  "frame_step check_timestamps frame_period dts data1D_per_frame dataframe_size frame_size
     rnd ii st =
     (case st of (timestamps, data, warned) \<Rightarrow>
        ebind (frombuffer_typed dts (segment_data_of dataframe_size frame_size rnd ii)) (\<lambda>vals.
        ebind (first_double (segment_ts_of dataframe_size frame_size rnd ii)) (\<lambda>t.
        ebind (if length vals = data1D_per_frame then Inr vals
               else if length vals = 1 then Inr (replicate data1D_per_frame (hd vals))
               else Inl ValueError) (\<lambda>vals.
        let timestamps = timestamps @ [t];
            data = slice_assign data (ii * data1D_per_frame) vals
        in ebind (unbound check_timestamps) (\<lambda>chk.
           if chk \<and> ii > 0 then
             ebind (unbound frame_period) (\<lambda>p.
               if ts_inconsistent p (timestamps ! ii) (timestamps ! (ii - 1)) then
                 Inr (timestamps[ii := fl_add (timestamps ! (ii - 1)) p],
                      slice_assign data (ii * data1D_per_frame)
                        (replicate data1D_per_frame (Fin 0)),
                      warned @ [ii])
               else Inr (timestamps, data, warned))
           else Inr (timestamps, data, warned))))))"

fun frame_loop ::
  "bool option \<Rightarrow> fl option \<Rightarrow> np_type \<Rightarrow> nat \<Rightarrow> nat \<Rightarrow> nat \<Rightarrow> byte list \<Rightarrow> nat list
   \<Rightarrow> frame_state \<Rightarrow> error + frame_state" where
  "frame_loop chk fp dts d1 ds fs rnd [] st = Inr st"
| "frame_loop chk fp dts d1 ds fs rnd (ii # iis) st =
     ebind (frame_step chk fp dts d1 ds fs rnd ii st) (frame_loop chk fp dts d1 ds fs rnd iis)"

definition decode_frames ::
  "bool option \<Rightarrow> fl option \<Rightarrow> np_type \<Rightarrow> nat \<Rightarrow> nat \<Rightarrow> nat \<Rightarrow> nat \<Rightarrow> byte list
   \<Rightarrow> error + frame_state" where
  \<comment> \<open>lines 649-677: the loop from empty timestamps and a zeroed data array\<close>
  "decode_frames chk fp dts d1 ds fs num_frames rnd =
     frame_loop chk fp dts d1 ds fs rnd [0..<num_frames]
       ([], replicate (d1 * num_frames) (Fin 0), [])"

subsection \<open>Frames without a timestamp\<close>

definition arange :: "fl \<Rightarrow> fl \<Rightarrow> fl \<Rightarrow> error + fl list" where
  \<comment> \<open>\<^verbatim>\<open>np.arange(start, stop, step, dtype = np.float64)\<close>. The length is the ceiling of
      \<open>(stop - start) / step\<close>, and 1 when a quotient of a positive difference underflows
      to zero; the first two values are \<open>start\<close> and \<open>start + step\<close>, the others
      \<open>start + i * delta\<close> for the difference \<open>delta\<close> of the first two. A zero step
      raises (the exception numpy raises there is rendered as one error); the memory
      that a long array takes is not modelled.\<close>
  "arange start stop step =
     (if fl_eq step (Fin 0) then Inl ZeroDivisionError
      else
        let d = fl_sub stop start
        in case fl_div d step of
             NaN \<Rightarrow> Inl ValueError
           | PInf \<Rightarrow> Inl OverflowError
           | NInf \<Rightarrow> Inl OverflowError
           | Fin q \<Rightarrow>
               if \<lceil>q\<rceil> < - (2 ^ 63) \<or> 2 ^ 63 \<le> \<lceil>q\<rceil> then Inl OverflowError
               else
                 let len = (if q = 0 \<and> \<not> fl_eq d (Fin 0)
                            then (if fl_sign d * fl_sign step < 0 then 0 else 1)
                            else nat \<lceil>q\<rceil>);
                     v1 = fl_add start step;
                     delta = fl_sub v1 start
                 in Inr (take len
                      (start # v1 #
                       map (\<lambda>i. fl_add start (fl_mul (Fin (of_nat i)) delta)) [2..<len])))"

definition fl_add_opt :: "fl option \<Rightarrow> fl \<Rightarrow> error + fl" where
  \<comment> \<open>adding to a value that may be \<^verbatim>\<open>None\<close>\<close>
  "fl_add_opt a p = (case a of None \<Rightarrow> Inl TypeError | Some x \<Rightarrow> Inr (fl_add x p))"

definition synth_timestamps ::
  "bool \<Rightarrow> fl option \<Rightarrow> fl option \<Rightarrow> nat \<Rightarrow> error + (fl list \<times> fl option)" where
  \<comment> \<open>lines 682-697: the timestamps and the new value of the variable \<^verbatim>\<open>start_time\<close>,
      which the source reassigns here\<close>
  "synth_timestamps first_chunk timestamp_first frame_period num_frames =
     ebind (unbound frame_period) (\<lambda>p.
       let span = fl_mul (py_float (of_nat num_frames)) p
       in if first_chunk then
            ebind (fl_add_opt timestamp_first span) (\<lambda>stop_time.
            ebind (arange (the timestamp_first) stop_time p) (\<lambda>ts.
              Inr (take num_frames ts, timestamp_first)))
          else
            ebind (fl_add_opt timestamp_first p) (\<lambda>start_time.
            ebind (arange start_time (fl_add start_time span) p) (\<lambda>ts.
              Inr (take num_frames ts, Some start_time))))"

subsection \<open>Unit scaler\<close>

text \<open>
  A two-dimensional array is its element type and its rows. The package requires numpy
  1.26.4, where an array of \<^verbatim>\<open>float32\<close> times a Python float is computed in
  \<^verbatim>\<open>float32\<close> unless the float is finite and outside the bounds \<^verbatim>\<open>-3.4e38\<close> and
  \<^verbatim>\<open>3.4e38\<close>, and an array of integers times a Python float is computed in doubles.
\<close>

type_synonym ndarray = "np_type \<times> fl list list"

definition reshape_rows :: "nat \<Rightarrow> fl list \<Rightarrow> error + fl list list" where
  \<comment> \<open>\<^verbatim>\<open>np.reshape(data, (-1, c))\<close>\<close>
  "reshape_rows c xs =
     (if c = 0 \<or> length xs mod c \<noteq> 0 then Inl ValueError else Inr (chunks c xs))"

fun to_int8 :: "fl \<Rightarrow> fl" where
  \<comment> \<open>the cast of a double to \<^verbatim>\<open>np.byte\<close> that \<^verbatim>\<open>casting = 'unsafe'\<close> allows: the
      fraction is dropped and the low 8 bits are kept. The C standard leaves the cast
      of a value outside the range of the target undefined; this is the conversion
      through a 32-bit integer of the x86-64 processors, which gives 0 beyond that
      range, for an infinity and for not-a-number.\<close>
  "to_int8 (Fin r) =
     (if - (2 ^ 31) \<le> py_int r \<and> py_int r < 2 ^ 31
      then Fin (of_int ((py_int r + 128) mod 256 - 128))
      else Fin 0)"
| "to_int8 _ = Fin 0"

fun wrap_int8 :: "fl \<Rightarrow> fl" where
  \<comment> \<open>the conversion of an integer to \<^verbatim>\<open>np.byte\<close>: the low 8 bits\<close>
  "wrap_int8 (Fin r) = Fin (of_int ((\<lfloor>r\<rfloor> + 128) mod 256 - 128))"
| "wrap_int8 x = x"

definition astype :: "np_type \<Rightarrow> np_type \<Rightarrow> fl list list \<Rightarrow> fl list list" where
  \<comment> \<open>\<^verbatim>\<open>a.astype(dtype)\<close> of an array of element type \<open>src\<close>, for \<^verbatim>\<open>np.float32\<close> and
      \<^verbatim>\<open>np.byte\<close>\<close>
  "astype src t rows =
     (if is_float_type t then map (map to_f32) rows
      else if is_float_type src then map (map to_int8) rows
      else map (map wrap_int8) rows)"

definition f32_scale :: "fl \<Rightarrow> fl \<Rightarrow> fl" where
  \<comment> \<open>a \<^verbatim>\<open>float32\<close> value times a Python float, stored as \<^verbatim>\<open>float32\<close>. A factor
      that is not finite, or that lies between the doubles \<^verbatim>\<open>-3.4e38\<close> and
      \<^verbatim>\<open>3.4e38\<close> (the bounds of numpy's \<^verbatim>\<open>min_scalar_type\<close>), is converted to
      \<^verbatim>\<open>float32\<close> and the product is rounded once to \<^verbatim>\<open>float32\<close>; for another
      factor the product is a double that is then converted\<close>
  "f32_scale s v =
     (case s of
        Fin x \<Rightarrow>
          if fl_less (rd64 (- 34 * 10 ^ 37)) s \<and> fl_less s (rd64 (34 * 10 ^ 37))
          then f32_mul v (to_f32 s)
          else to_f32 (fl_mul v s)
      | _ \<Rightarrow> f32_mul v s)"

definition np_multiply :: "np_type \<Rightarrow> rat \<Rightarrow> fl list list \<Rightarrow> fl list list" where
  \<comment> \<open>\<^verbatim>\<open>np.multiply(a, float(s), out = a, casting = 'unsafe')\<close>: the products are written
      back into the array, so they are cast to its element type\<close>
  "np_multiply t s rows =
     (if is_float_type t then map (map (f32_scale (py_float s))) rows
      else map (map (\<lambda>v. to_int8 (fl_mul v (py_float s)))) rows)"

definition scale_telemetry :: "rat \<Rightarrow> rat \<Rightarrow> string \<Rightarrow> fl \<Rightarrow> fl" where
  \<comment> \<open>lines 722-725, the value of the column of telemetry \<open>t\<close>, for factors that are
      Python floats\<close>
  "scale_telemetry scaler_cur scaler_vol t v =
     (if contains ''i'' t then f32_scale (py_float scaler_cur) v
      else if contains ''v'' t then f32_scale (py_float scaler_vol) v
      else v)"

definition unit_scaler ::
  "string \<Rightarrow> descriptor \<Rightarrow> bool \<Rightarrow> np_type \<Rightarrow> fl list \<Rightarrow> error + ndarray option" where
  \<comment> \<open>lines 699-725: the array \<^verbatim>\<open>s_data\<close>, or nothing where no branch assigns it. The
      loop over the enabled telemetries scales column \<open>idx\<close> of every row by the factor
      of the name at \<open>idx\<close>.\<close>
  "unit_scaler sensor_name d raw_flag dt data =
     (case c_type d of
        SENSOR \<Rightarrow>
          ebind (reshape_rows (if contains ''_ispu'' sensor_name then 64
                               else get_or (dim d) 1) data) (\<lambda>rows.
            if raw_flag then Inr (Some (dt, rows))
            else let t = (if contains ''_ispu'' sensor_name then Int8 else Float32)
                 in Inr (Some (t, np_multiply t (get_or (sensitivity d) 1) (astype dt t rows))))
      | ALGORITHM \<Rightarrow>
          ebind (if algorithm_type d = IALGORITHM_TYPE_FFT
                 then ebind (reshape_rows (fft_length d) data) (\<lambda>rows.
                        Inr (Some (Float32, astype dt Float32 rows)))
                 else Inr None) (\<lambda>s_data.
            if \<not> raw_flag then
              ebind (unbound s_data) (\<lambda>(t, rows).
                Inr (Some (t, np_multiply t (get_or (sensitivity d) 1) rows)))
            else Inr s_data)
      | ACTUATOR \<Rightarrow>
          (if sensor_name = MC_SLOW_TELEMETRY_COMP_NAME
              \<or> sensor_name = MC_FAST_TELEMETRY_COMP_NAME then
             (case get_active_mc_telemetries_names d sensor_name of
                None \<Rightarrow> Inl TypeError
              | Some active \<Rightarrow>
                  ebind (reshape_rows (length active) data) (\<lambda>rows.
                    if sensor_name = MC_FAST_TELEMETRY_COMP_NAME \<and> \<not> raw_flag then
                      Inr (Some (Float32,
                        map (\<lambda>row. map (\<lambda>(t, v).
                               scale_telemetry (scaler_current d) (scaler_voltage d) t v)
                             (zip active row))
                          (astype dt Float32 rows)))
                    else Inr (Some (Float32, astype dt Float32 rows))))
           else Inr None)
      | OTHER_COMPONENT \<Rightarrow> Inr None)"

subsection \<open>Per-sample timestamps\<close>

definition linspace :: "fl \<Rightarrow> fl \<Rightarrow> nat \<Rightarrow> fl list" where
  \<comment> \<open>\<^verbatim>\<open>np.linspace(start, stop, num, endpoint = False)\<close>: \<open>i * step + start\<close> with
      \<open>step = (stop - start) / num\<close>, every operation rounded; when the step is zero,
      \<open>(i / num) * (stop - start) + start\<close>\<close>
  "linspace start stop num =
     (let delta = fl_sub stop start;
          step = fl_div delta (Fin (of_nat num))
      in map (\<lambda>i. if fl_eq step (Fin 0)
                   then fl_add (fl_mul (fl_div (Fin (of_nat i)) (Fin (of_nat num))) delta) start
                   else fl_add (fl_mul (Fin (of_nat i)) step) start) [0..<num])"

definition interp_frame :: "fl \<Rightarrow> nat \<Rightarrow> fl list \<Rightarrow> nat \<Rightarrow> fl list" where
  \<comment> \<open>lines 753-757: the sample times of frame \<open>ii\<close>; \<^verbatim>\<open>0.33\<close> is the double nearest to
      33 hundredths\<close>
  "interp_frame frame_period spts timestamps ii =
     (let delta_ts = fl_abs (fl_sub (timestamps ! (ii + 1)) (timestamps ! ii))
      in if fl_greater frame_period (Fin 0)
            \<and> fl_greater delta_ts
                 (fl_add frame_period (fl_mul frame_period (rd64 (33 / 100))))
         then linspace (fl_sub (timestamps ! (ii + 1)) frame_period)
                (timestamps ! (ii + 1)) spts
         else linspace (timestamps ! ii) (timestamps ! (ii + 1)) spts)"

definition interpolate :: "fl \<Rightarrow> nat \<Rightarrow> nat \<Rightarrow> fl list \<Rightarrow> fl list" where
  \<comment> \<open>lines 748-757: the array of sample times, filled with \<open>-1\<close>, then written frame
      by frame\<close>
  "interpolate frame_period spts frames timestamps =
     fold (\<lambda>ii samples_times.
             slice_assign samples_times (ii * spts) (interp_frame frame_period spts timestamps ii))
       [0..<frames] (replicate (frames * spts) (Fin (- 1)))"

definition filter_valid :: "fl list \<Rightarrow> 'a list \<Rightarrow> 'a list" where
  \<comment> \<open>lines 765-767: the entries whose sample time is not the sentinel \<open>-1\<close>\<close>
  "filter_valid samples_times xs =
     map snd (filter (\<lambda>(t, x). \<not> fl_eq t (Fin (- 1))) (zip samples_times xs))"

subsection \<open>The decoder\<close>

text \<open>
  What a call returns: the two empty lists of \<^verbatim>\<open>return [],[]\<close>, the pair
  \<^verbatim>\<open>None, None\<close>, the \<^verbatim>\<open>None\<close> of a function that ends without a
  \<^verbatim>\<open>return\<close>, or the sample array with the sample times.
\<close>

datatype outcome = Empty_lists | None_None | Py_None | Arrays ndarray "fl list"

fun not_zero :: "fl option \<Rightarrow> bool" where
  \<comment> \<open>\<^verbatim>\<open>start_time != 0\<close>, also for \<^verbatim>\<open>None\<close>\<close>
  "not_zero None = True"
| "not_zero (Some x) = (\<not> fl_eq x (Fin 0))"

definition prepend_origin :: "cursor \<Rightarrow> fl option \<Rightarrow> fl option \<Rightarrow> fl list \<Rightarrow> fl list" where
  \<comment> \<open>lines 736-745: the frame timestamps after the carried time origin\<close>
  "prepend_origin cur start_time prev_timestamp timestamps =
     (if not_zero start_time \<and> get_or (is_first_chunk cur) False then
        (case prev_timestamp of
           Some p \<Rightarrow> p # timestamps
         | None \<Rightarrow> get_or (ioffset cur) (Fin 0) # timestamps)
      else get_or (ioffset cur) (Fin 0) # timestamps)"

definition sample_times ::
  "cursor \<Rightarrow> fl option \<Rightarrow> nat \<Rightarrow> nat \<Rightarrow> fl option \<Rightarrow> fl option \<Rightarrow> fl list
   \<Rightarrow> error + (fl list \<times> cursor)" where
  \<comment> \<open>lines 733-763: the time of every sample and the cursor with the new time origin\<close>
  "sample_times cur frame_period spts num_frames start_time prev_timestamp timestamps =
     (if spts > 1 then
        let timestamps = prepend_origin cur start_time prev_timestamp timestamps;
            cur = cur\<lparr>ioffset := Some (last timestamps)\<rparr>
        in if num_frames = 0 then Inr ([], cur)
           else ebind (unbound frame_period) (\<lambda>p.
                  Inr (interpolate p spts num_frames timestamps, cur))
      else Inr (timestamps,
                if length timestamps > 0 then cur\<lparr>ioffset := Some (last timestamps)\<rparr>
                else cur))"

definition extract_data_and_timestamps ::
  "bool \<Rightarrow> string \<Rightarrow> descriptor \<Rightarrow> cursor \<Rightarrow> byte list \<Rightarrow> nat \<Rightarrow> nat \<Rightarrow> bool
   \<Rightarrow> fl option \<Rightarrow> fl option \<Rightarrow> np_type \<Rightarrow> nat \<Rightarrow> nat \<Rightarrow> nat
   \<Rightarrow> error + (outcome \<times> cursor \<times> nat list)" where
  \<comment> \<open>lines 603-769, with the variables of the enclosing function as arguments; the
      third component of the result lists the frames a warning was logged for\<close>
  "extract_data_and_timestamps checkTimestamps sensor_name d cur raw_data dataframe_size
     timestamp_size raw_flag start_time prev_timestamp dts data1D_per_frame num_frames spts =
     (let frame_size = dataframe_size + timestamp_size;
          chk = check_timestamps_of checkTimestamps sensor_name d
      in ebind (frame_period_of sensor_name d spts) (\<lambda>fp.
         let rnd = take (frame_size * num_frames) raw_data;
             timestamp_first = (if not_zero start_time then start_time
                                else Some (get_or (ioffset cur) (Fin 0)))
         in ebind
              (if timestamp_size \<noteq> 0 then
                 ebind (decode_frames chk fp dts data1D_per_frame dataframe_size frame_size
                          num_frames rnd) (\<lambda>(timestamps, data, warned).
                   Inr (timestamps, data, start_time, warned))
               else
                 ebind (frombuffer_typed dts rnd) (\<lambda>data.
                 ebind (synth_timestamps (get_or (is_first_chunk cur) False) timestamp_first
                          fp num_frames) (\<lambda>(timestamps, start_time).
                   Inr (timestamps, data, start_time, []))))
              (\<lambda>(timestamps, data, start_time, warned).
           ebind (unit_scaler sensor_name d raw_flag (get_np_dtype dts) data) (\<lambda>s_data.
           if length data = 0 then Inr (Empty_lists, cur, warned)
           else
             ebind (sample_times cur fp spts num_frames start_time prev_timestamp timestamps)
               (\<lambda>(samples_times, cur).
             ebind (unbound s_data) (\<lambda>(t, rows).
               if length rows \<noteq> length samples_times then Inl IndexError
               else Inr (Arrays (t, filter_valid samples_times rows)
                           (filter_valid samples_times samples_times), cur, warned)))))))"

definition process_datalog ::
  "bool \<Rightarrow> string \<Rightarrow> descriptor \<Rightarrow> cursor \<Rightarrow> byte list \<Rightarrow> nat \<Rightarrow> nat \<Rightarrow> bool
   \<Rightarrow> fl option \<Rightarrow> fl option \<Rightarrow> error + (outcome \<times> cursor \<times> nat list)" where
  \<comment> \<open>lines 600-810; the first argument is the flag \<^verbatim>\<open>__checkTimestamps\<close> of the object\<close>
  "process_datalog checkTimestamps sensor_name d cur raw_data dataframe_size timestamp_size
     raw_flag start_time prev_timestamp =
     (let frame_size = dataframe_size + timestamp_size
      in if frame_size = 0 then Inl ZeroDivisionError
         else
           let num_frames = length raw_data div frame_size;
               dts = (if contains ''_ispu'' sensor_name then Int8 else data_type d);
               data_type_byte_num = check_type_length dts;
               data1D_per_frame = dataframe_size div data_type_byte_num
           in ebind (resolve_samples_per_ts sensor_name d dataframe_size data_type_byte_num)
                (\<lambda>spts.
                  extract_data_and_timestamps checkTimestamps sensor_name d cur raw_data
                    dataframe_size timestamp_size raw_flag start_time prev_timestamp dts
                    data1D_per_frame num_frames spts))"

section \<open>Example components\<close>

definition example_sensor :: descriptor where
  \<comment> \<open>a one-axis sensor of 8-bit samples at 2 Hz, two samples per timestamp\<close>
  "example_sensor = \<lparr>c_type = SENSOR, sensor_category = ISENSOR_CLASS_OTHER,
     intermeasurement_time = 0, exposure_time = 0, adc_conversion_time = 0,
     measodr = None, odr = Some 2, algorithm_type = IALGORITHM_TYPE_OTHER,
     fft_sample_freq = 0, fft_length = 0, dim = Some 1, data_type = Int8,
     samples_per_ts = Some (SptsInt 2), sensitivity = Some 2, st_ble_stream = [],
     telemetries = [], scaler_current = 1, scaler_voltage = 1, sd_dps = 8, usb_dps = None,
     ble_dps = 4, serial_dps = 4\<rparr>"

section \<open>Window locator and packet stream reader: \<^verbatim>\<open>get_data_and_timestamps_batch\<close>\<close>

subsection \<open>Files and slices\<close>

definition py_index :: "nat \<Rightarrow> int \<Rightarrow> nat" where
  \<comment> \<open>the position a slice bound denotes in a sequence of the given length\<close>
  "py_index len i = (if i < 0 then nat (int len + i) else min len (nat i))"

definition py_slice :: "int \<Rightarrow> int \<Rightarrow> 'a list \<Rightarrow> 'a list" where
  \<comment> \<open>\<^verbatim>\<open>xs[a:b]\<close>\<close>
  "py_slice a b xs =
     take (py_index (length xs) b - py_index (length xs) a) (drop (py_index (length xs) a) xs)"

definition py_from :: "int \<Rightarrow> 'a list \<Rightarrow> 'a list" where
  \<comment> \<open>\<^verbatim>\<open>xs[a:]\<close>\<close>
  "py_from a xs = drop (py_index (length xs) a) xs"

definition f_read :: "byte list \<Rightarrow> int \<Rightarrow> int \<Rightarrow> error + byte list" where
  \<comment> \<open>\<^verbatim>\<open>f.seek(pos); f.read(size)\<close> on a file opened for reading bytes: a negative
      position is refused, a size of \<open>-1\<close> reads to the end, a read at the end is short\<close>
  "f_read file pos sz =
     (if pos < 0 then Inl OSError
      else if sz < - 1 then Inl ValueError
      else if sz = - 1 then Inr (drop (nat pos) file)
      else Inr (take (nat sz) (drop (nat pos) file)))"

definition unpack_d :: "byte list \<Rightarrow> error + fl" where
  \<comment> \<open>\<^verbatim>\<open>struct.unpack('d', b)[0]\<close>: the buffer must hold exactly 8 bytes\<close>
  "unpack_d bs = (if length bs = 8 then Inr (unpack_double bs) else Inl StructError)"

subsection \<open>The state of an extraction\<close>

text \<open>
  The variables of \<^verbatim>\<open>get_data_and_timestamps_batch\<close> that its nested function
  \<^verbatim>\<open>__extract_data\<close> reads: the file and the byte geometry of packets and frames.
\<close>

record geometry =
  file_bytes :: "byte list"
  data_packet_size :: nat
  cmplt_pkt_size :: nat
  nof_data_packet :: nat
  dataframe_byte_size :: nat
  timestamp_byte_size :: nat
  read_start_bytes :: int
  read_end_bytes :: int
  start_idx :: int
  last_timestamp :: rat
  s_samples_per_ts :: nat
  batch_odr :: rat

text \<open>
  The local variables of \<^verbatim>\<open>__extract_data\<close> and the dictionary it updates. The byte
  chest and the output array are the bytes written so far (\<^verbatim>\<open>byte_chest_index\<close> and
  \<^verbatim>\<open>raw_data_array_index\<close> are their lengths); the capacity of the preallocated
  buffers is not modelled.
\<close>

record xstate =
  loc_last_index :: int
  loc_missing_bytes :: int
  byte_chest :: "byte list"
  raw_data_array :: "byte list"
  skip_counter_check :: bool
  loc_prev_timestamp :: "fl option"
  loc_extracted_timestamp :: "fl option"
  loc_end_time :: fl
  end_time_flag :: bool
  comp_status :: cursor

text \<open>
  How a step of a loop ends: it goes on with the rest of its body (\<open>Next\<close>), with the
  next iteration (\<open>Skip\<close>, a \<^verbatim>\<open>continue\<close>), leaves the loop (\<open>Break\<close>), or leaves
  the function with \<^verbatim>\<open>return [], None\<close> (\<open>Return_short\<close>).
\<close>

datatype ('a, 's) flow = Next 'a | Skip 's | Break 's | Return_short 's

definition set_cursor :: "(cursor \<Rightarrow> cursor) \<Rightarrow> xstate \<Rightarrow> xstate" where
  "set_cursor f st = st\<lparr>comp_status := f (comp_status st)\<rparr>"

definition byte_chest_index :: "xstate \<Rightarrow> int" where
  "byte_chest_index st = int (length (byte_chest st))"

definition raw_data_array_index :: "xstate \<Rightarrow> int" where
  "raw_data_array_index st = int (length (raw_data_array st))"

subsection \<open>Reading one packet\<close>

definition read_packet ::
  "geometry \<Rightarrow> int \<Rightarrow> nat \<Rightarrow> xstate \<Rightarrow> error + (xstate \<times> byte list \<times> byte list, xstate) flow"
  where
  \<comment> \<open>lines 994-1030, for the saved bytes of the cursor and the packet number \<open>n\<close>: the
      state with the payload bytes and the counter bytes that were read\<close>
  "read_packet g saved n st =
     (let file_index = loc_last_index st + int n * int (cmplt_pkt_size g);
          missing = loc_missing_bytes st
      in if file_index \<ge> int (length (file_bytes g)) then
           Inr (Break (set_cursor (\<lambda>c. c\<lparr>missing_bytes := Some (byte_chest_index st),
                  saved_bytes := Some (raw_data_array_index st),
                  last_index := Some file_index\<rparr>) st))
         else if loc_last_index st \<noteq> 0 then
           (if saved \<noteq> 0 \<and> saved \<le> missing then
              ebind (f_read (file_bytes g) file_index missing) (\<lambda>raw_data.
                let st = set_cursor (\<lambda>c. c\<lparr>is_same_dps := Some True\<rparr>) st
                in if int (length raw_data) < missing then Inr (Return_short st)
                   else Inr (Next
                     ((set_cursor (\<lambda>c. c\<lparr>missing_bytes := Some 0\<rparr>) st)
                        \<lparr>loc_last_index := loc_last_index st + missing,
                         loc_missing_bytes := 0, skip_counter_check := True\<rparr>,
                      py_slice 0 missing raw_data, [])))
            else
              ebind (f_read (file_bytes g) file_index (missing + int (cmplt_pkt_size g)))
                (\<lambda>raw_data.
                let st = set_cursor (\<lambda>c. c\<lparr>is_same_dps := Some False\<rparr>) st
                in if int (length raw_data) < missing + int (cmplt_pkt_size g)
                   then Inr (Return_short st)
                   else Inr (Next
                     ((set_cursor (\<lambda>c. c\<lparr>missing_bytes := Some 0\<rparr>) st)
                        \<lparr>loc_last_index := loc_last_index st + missing,
                         loc_missing_bytes := 0\<rparr>,
                      py_slice 0 missing raw_data @ py_from (missing + 4) raw_data,
                      py_slice missing (missing + 4) raw_data))))
         else
           ebind (f_read (file_bytes g) file_index (int (cmplt_pkt_size g))) (\<lambda>raw_data.
             if int (length raw_data) + byte_chest_index st < int (cmplt_pkt_size g)
             then Inr (Return_short st)
             else Inr (Next (st, py_from 4 raw_data, py_slice 0 4 raw_data))))"

subsection \<open>Validating the counter\<close>

definition check_counter ::
  "geometry \<Rightarrow> nat \<Rightarrow> xstate \<Rightarrow> byte list \<Rightarrow> error + (xstate, xstate) flow" where
  \<comment> \<open>lines 1032-1049\<close>
  "check_counter g n st counter_bytes =
     (if skip_counter_check st then Inr (Next st)
      else
        ebind (unpack_I counter_bytes) (\<lambda>counter.
          case prev_data_byte_counter (comp_status st) of
            None \<Rightarrow>
              Inr (Next (set_cursor (\<lambda>c. c\<lparr>prev_data_byte_counter := Some counter\<rparr>) st))
          | Some data_byte_counter \<Rightarrow>
              if counter - data_byte_counter \<noteq> int (data_packet_size g) then
                (if get_or (is_first_chunk (comp_status st)) True \<and> n = 0
                    \<and> data_byte_counter = 0
                 then Inr (Skip st)
                 else Inl DataCorruptedException)
              else
                Inr (Next (set_cursor (\<lambda>c. c\<lparr>prev_data_byte_counter := Some counter\<rparr>) st))))"

subsection \<open>Consuming the byte chest\<close>

definition mark_window_end :: "geometry \<Rightarrow> nat \<Rightarrow> int \<Rightarrow> xstate \<Rightarrow> xstate" where
  \<comment> \<open>lines 1063-1072 and 1103-1112, for the packet number and the length of the last
      piece that was extracted: the resume state of a window that has reached its end\<close>
  "mark_window_end g n extracted_data_length st =
     (let is_same_data_packet = (is_same_dps (comp_status st) = Some True);
          bytes_processed =
            (if is_same_data_packet then loc_last_index st
             else loc_last_index st + (int n + 1) * int (cmplt_pkt_size g));
          missing = byte_chest_index st - extracted_data_length
      in set_cursor (\<lambda>c. c\<lparr>is_same_dps := (if is_same_data_packet then Some False
                                             else is_same_dps c),
               missing_bytes := Some missing,
               saved_bytes := Some (raw_data_array_index st),
               last_index := Some (bytes_processed - missing)\<rparr>) st)"

definition take_window :: "geometry \<Rightarrow> nat \<Rightarrow> xstate \<Rightarrow> error + (xstate, xstate) flow" where
  \<comment> \<open>lines 1056-1074, frames without a timestamp: once the chest holds the bytes of the
      window they are the output (which is empty until then). A negative length would
      copy from the unwritten end of the buffers.\<close>
  "take_window g n st =
     (let extracted_data_length = read_end_bytes g - read_start_bytes g
      in if byte_chest_index st \<ge> extracted_data_length then
           (if extracted_data_length < 0 then Inl UninitialisedRead
            else
              let st = st\<lparr>raw_data_array := take (nat extracted_data_length) (byte_chest st),
                          end_time_flag := True\<rparr>;
                  st = mark_window_end g n extracted_data_length st
              in Inr (Break (st\<lparr>byte_chest :=
                       take (length (byte_chest st) - nat extracted_data_length)
                         (byte_chest st)\<rparr>)))
         else Inr (Next st))"

definition first_prev :: "rat \<Rightarrow> fl \<Rightarrow> xstate \<Rightarrow> xstate \<times> bool" where
  \<comment> \<open>lines 1090-1098 and 1115-1124: the look-back timestamp at the first frame of the
      window, and whether the loop over the frames is left\<close>
  "first_prev start_time ets st =
     (if loc_prev_timestamp st = None \<and> get_or (is_first_chunk (comp_status st)) False then
        (if fl_greater ets (Fin start_time) then
           (if loc_last_index st = 0
            then (st\<lparr>loc_prev_timestamp := Some (get_or (ioffset (comp_status st)) (Fin 0))\<rparr>,
                  False)
            else (st\<lparr>loc_prev_timestamp := Some ets, end_time_flag := True\<rparr>, True))
         else (st\<lparr>loc_prev_timestamp := Some ets\<rparr>, False))
      else (st, False))"

function frame_while :: "geometry \<Rightarrow> rat \<Rightarrow> nat \<Rightarrow> xstate \<Rightarrow> error + xstate" where
  \<comment> \<open>lines 1077-1137, the loop over the frames in the chest\<close>
  "frame_while g start_time n st =
     (let frame = dataframe_byte_size g + timestamp_byte_size g;
          chest = byte_chest st
      in if timestamp_byte_size g = 0 \<or> length chest < frame then Inr st
         else
           case unpack_d (take (timestamp_byte_size g) (drop (dataframe_byte_size g) chest)) of
             Inl e \<Rightarrow> Inl e
           | Inr ets \<Rightarrow>
               if fl_greater ets (Fin start_time) then
                 (let st1 = st\<lparr>loc_extracted_timestamp := Some ets,
                               raw_data_array := raw_data_array st @ take frame chest\<rparr>
                  in if \<not> fl_eq (loc_end_time st1) (Fin (- 1)) \<and> fl_ge ets (loc_end_time st1)
                     then
                       (if snd (first_prev start_time ets st1)
                        then Inr (fst (first_prev start_time ets st1))
                        else Inr (mark_window_end g n (int frame)
                               ((fst (first_prev start_time ets st1))
                                  \<lparr>loc_end_time := ets, end_time_flag := True\<rparr>)))
                     else
                       (if snd (first_prev start_time ets st1)
                        then Inr (set_cursor (\<lambda>c. c\<lparr>prev_data_byte_counter := None\<rparr>)
                               (fst (first_prev start_time ets st1)))
                        else frame_while g start_time n
                               ((fst (first_prev start_time ets st1))
                                  \<lparr>byte_chest := drop frame chest\<rparr>)))
               else
                 Inr (st\<lparr>loc_extracted_timestamp := Some ets,
                         loc_prev_timestamp :=
                           (if get_or (is_first_chunk (comp_status st)) False then Some ets
                            else loc_prev_timestamp st),
                         byte_chest := drop frame chest\<rparr>))"
  by pat_completeness auto
termination
  by (relation "measure (\<lambda>(g, start_time, n, st). length (byte_chest st))") auto

definition after_frames :: "geometry \<Rightarrow> nat \<Rightarrow> xstate \<Rightarrow> error + (xstate, xstate) flow" where
  \<comment> \<open>lines 1139-1155, after the loop over the frames\<close>
  "after_frames g n st =
     (let near_end =
            (if last_index (comp_status st) = None \<and> loc_extracted_timestamp st \<noteq> None
             then ebind (py_truediv (py_float (of_nat (s_samples_per_ts g)))
                           (py_float (batch_odr g))) (\<lambda>lim.
                    Inr (fl_less (fl_sub (py_float (last_timestamp g))
                                   (the (loc_extracted_timestamp st))) lim))
             else Inr False)
      in ebind near_end (\<lambda>near.
           if near then
             Inr (Break (set_cursor (\<lambda>c. c\<lparr>missing_bytes := Some (byte_chest_index st),
                    saved_bytes := Some (raw_data_array_index st),
                    last_index := Some (loc_last_index st
                      + (int n + 1) * int (cmplt_pkt_size g) - byte_chest_index st)\<rparr>)
                    (st\<lparr>end_time_flag := True\<rparr>)))
           else
             ebind
               (if loc_last_index st \<noteq> 0 \<and> loc_extracted_timestamp st \<noteq> None
                   \<and> fl_less (the (loc_extracted_timestamp st)) (loc_end_time st)
                   \<and> byte_chest_index st \<noteq> 0
                then (case missing_bytes (comp_status st) of
                        None \<Rightarrow> Inl KeyError
                      | Some m \<Rightarrow> Inr (m \<noteq> 0))
                else Inr False) (\<lambda>straddle.
               if straddle then
                 Inr (Break (set_cursor (\<lambda>c. c\<lparr>missing_bytes := Some (byte_chest_index st),
                        saved_bytes := Some (raw_data_array_index st),
                        last_index := Some (loc_last_index st - byte_chest_index st)\<rparr>)
                        (st\<lparr>end_time_flag := True\<rparr>)))
               else if end_time_flag st then Inr (Break st)
               else Inr (Next st))))"

subsection \<open>The loop over the packets\<close>

definition packet_iter ::
  "geometry \<Rightarrow> int \<Rightarrow> rat \<Rightarrow> nat \<Rightarrow> xstate \<Rightarrow> error + (xstate, xstate) flow" where
  \<comment> \<open>lines 994-1155, one iteration; \<open>Next\<close> is the state the following iteration
      starts from\<close>
  "packet_iter g saved start_time n st =
     ebind (read_packet g saved n st) (\<lambda>r.
       case r of
         Break st \<Rightarrow> Inr (Break st)
       | Return_short st \<Rightarrow> Inr (Return_short st)
       | Skip st \<Rightarrow> Inr (Skip st)
       | Next (st, data_bytes, counter_bytes) \<Rightarrow>
           ebind (check_counter g n st counter_bytes) (\<lambda>c.
             case c of
               Skip st \<Rightarrow> Inr (Skip st)
             | Break st \<Rightarrow> Inr (Break st)
             | Return_short st \<Rightarrow> Inr (Return_short st)
             | Next st \<Rightarrow>
                 (let st = st\<lparr>byte_chest := byte_chest st @ data_bytes\<rparr>
                  in if timestamp_byte_size g = 0 then take_window g n st
                     else ebind (frame_while g start_time n
                                   (st\<lparr>loc_extracted_timestamp := None\<rparr>))
                            (after_frames g n))))"

fun packet_loop ::
  "geometry \<Rightarrow> int \<Rightarrow> rat \<Rightarrow> nat list \<Rightarrow> xstate \<Rightarrow> error + (xstate, xstate) flow" where
  \<comment> \<open>the \<^verbatim>\<open>for\<close> loop of line 993 over the packet numbers: \<open>Next\<close> when the numbers
      are exhausted, \<open>Break\<close> when the loop was left, \<open>Return_short\<close> when the function
      was\<close>
  "packet_loop g saved start_time [] st = Inr (Next st)"
| "packet_loop g saved start_time (n # ns) st =
     ebind (packet_iter g saved start_time n st) (\<lambda>r.
       case r of
         Next st \<Rightarrow> packet_loop g saved start_time ns st
       | Skip st \<Rightarrow> packet_loop g saved start_time ns st
       | Break st \<Rightarrow> Inr (Break st)
       | Return_short st \<Rightarrow> Inr (Return_short st))"

definition extract_start :: "geometry \<Rightarrow> cursor \<Rightarrow> fl \<Rightarrow> int \<Rightarrow> error + xstate" where
  \<comment> \<open>lines 970-990: the local variables before the loop\<close>
  "extract_start g cur end_time nof_prev_timestamps =
     (let st = \<lparr>loc_last_index = get_or (last_index cur) 0,
                 loc_missing_bytes = get_or (missing_bytes cur) 0,
                 byte_chest = [], raw_data_array = [], skip_counter_check = False,
                 loc_prev_timestamp = None, loc_extracted_timestamp = None,
                 loc_end_time = end_time, end_time_flag = False, comp_status = cur\<rparr>
      in if get_or (last_index cur) 0 = 0 \<and> start_idx g \<noteq> 0 then
           (let data_and_ts = nof_prev_timestamps
                  * int (dataframe_byte_size g + timestamp_byte_size g)
            in ebind (ebind (int_truediv data_and_ts (int (data_packet_size g))) math_ceil)
                 (\<lambda>nof_counters.
               let packet_bytes = nof_counters * 4 + data_and_ts
               in ebind (ebind (int_truediv packet_bytes (int (cmplt_pkt_size g))) math_ceil)
                    (\<lambda>k. Inr (st\<lparr>loc_missing_bytes := k * int (cmplt_pkt_size g) - packet_bytes,
                                   loc_last_index := packet_bytes\<rparr>))))
         else Inr st)"

definition extract_data ::
  "geometry \<Rightarrow> cursor \<Rightarrow> rat \<Rightarrow> fl \<Rightarrow> int \<Rightarrow> error + (byte list option \<times> fl option \<times> cursor)"
  where
  \<comment> \<open>lines 964-1160, \<^verbatim>\<open>__extract_data\<close>: the output bytes (nothing for the empty list
      of \<^verbatim>\<open>return [], None\<close>), the look-back timestamp and the updated dictionary\<close>
  "extract_data g cur start_time end_time nof_prev_timestamps =
     ebind (extract_start g cur end_time nof_prev_timestamps) (\<lambda>st.
     ebind (packet_loop g (get_or (saved_bytes cur) 0) start_time
              [0..<nof_data_packet g + 1] st) (\<lambda>r.
       case r of
         Return_short st \<Rightarrow> Inr (None, None, comp_status st)
       | Next st \<Rightarrow> Inr (Some (raw_data_array st), loc_prev_timestamp st, comp_status st)
       | Skip st \<Rightarrow> Inr (Some (raw_data_array st), loc_prev_timestamp st, comp_status st)
       | Break st \<Rightarrow> Inr (Some (raw_data_array st), loc_prev_timestamp st, comp_status st)))"

subsection \<open>The look-back loop\<close>

text \<open>
  The loop of lines 1165-1168 calls \<^verbatim>\<open>__extract_data\<close> again, with one look-back frame
  fewer, as long as the call returns a look-back timestamp after the start of the window.
  Nothing in the source bounds the number of rounds, so the loop is a partial function:
  \<open>None\<close> is a loop that does not end.
\<close>

partial_function (option) lookback ::
  "geometry \<Rightarrow> rat \<Rightarrow> fl \<Rightarrow> int \<Rightarrow> byte list option \<times> fl option \<times> cursor
   \<Rightarrow> (error + byte list option \<times> fl option \<times> cursor) option" where
  "lookback g start_time end_time nof_prev_timestamps r =
     (if fst (snd r) \<noteq> None \<and> fl_greater (the (fst (snd r))) (Fin start_time) then
        (case extract_data g (snd (snd r)) start_time end_time (nof_prev_timestamps - 1) of
           Inl e \<Rightarrow> Some (Inl e)
         | Inr r' \<Rightarrow> lookback g start_time end_time (nof_prev_timestamps - 1) r')
      else Some (Inr r))"

subsection \<open>The entry point\<close>

text \<open>
  What the entry point reads of the acquisition: the transport of the acquisition
  information, the raw file of the component, if there is one, and the seconds from the
  recorded start to the recorded end.
\<close>

record acquisition =
  interface :: int
  raw_file :: "byte list option"
  acquisition_duration :: rat

definition remove_4bytes_every_n_optimized :: "byte list \<Rightarrow> nat \<Rightarrow> byte list" where
  \<comment> \<open>lines 834-844: the bytes outside the first four of every run of \<open>N\<close>\<close>
  "remove_4bytes_every_n_optimized arr N = concat (map (drop 4) (chunks N arr))"

definition process_datalog_of_list ::
  "string \<Rightarrow> descriptor \<Rightarrow> cursor \<Rightarrow> nat \<Rightarrow> nat \<Rightarrow> bool \<Rightarrow> fl option \<Rightarrow> fl option
   \<Rightarrow> bool \<Rightarrow> error + (outcome \<times> cursor \<times> nat list)" where
  \<comment> \<open>\<^verbatim>\<open>__process_datalog\<close> on the empty Python list of \<^verbatim>\<open>return [], None\<close>: as on an
      empty array, but that \<^verbatim>\<open>np.frombuffer\<close> refuses a list (line 681, frames without
      a timestamp)\<close>
  "process_datalog_of_list sensor_name d cur dataframe_size timestamp_size raw_flag start_time
     prev checkTimestamps =
     (if timestamp_size \<noteq> 0 then
        process_datalog checkTimestamps sensor_name d cur [] dataframe_size timestamp_size
          raw_flag start_time prev
      else if dataframe_size = 0 then Inl ZeroDivisionError
      else
        ebind (resolve_samples_per_ts sensor_name d dataframe_size
                 (check_type_length (if contains ''_ispu'' sensor_name then Int8
                                     else data_type d))) (\<lambda>spts.
        ebind (frame_period_of sensor_name d spts) (\<lambda>fp. Inl TypeError)))"

definition batch_samples_per_ts :: "descriptor \<Rightarrow> nat" where
  \<comment> \<open>lines 894-901\<close>
  "batch_samples_per_ts d =
     (case samples_per_ts d of
        Some (SptsInt n) \<Rightarrow> n
      | Some (SptsDict v) \<Rightarrow> get_or v (if c_type d = ACTUATOR then 1 else 0)
      | None \<Rightarrow> (if c_type d = ACTUATOR then 1 else 0))"

definition batch_odr_of :: "descriptor \<Rightarrow> rat" where
  \<comment> \<open>lines 914-916\<close>
  "batch_odr_of d =
     (if measodr d = None \<or> measodr d = Some 0 then get_or (odr d) 1 else the (measodr d))"

definition finish_cursor :: "int \<Rightarrow> int \<Rightarrow> cursor \<Rightarrow> cursor" where
  \<comment> \<open>lines 1175-1179, with the values the variables of the enclosing function have
      there: \<open>last_index\<close>, \<open>byte_chest_index\<close> and \<open>raw_data_array_index\<close> are 0\<close>
  "finish_cursor nof cmplt cur =
     (if last_index cur = None
      then cur\<lparr>missing_bytes := Some 0, saved_bytes := Some 0,
               last_index := Some ((nof + 1) * cmplt)\<rparr>
      else cur)"

definition extract_and_decode ::
  "bool \<Rightarrow> string \<Rightarrow> descriptor \<Rightarrow> cursor \<Rightarrow> geometry \<Rightarrow> rat \<Rightarrow> fl \<Rightarrow> int \<Rightarrow> bool
   \<Rightarrow> int \<Rightarrow> int \<Rightarrow> (error + (outcome \<times> cursor \<times> nat list)) option" where
  \<comment> \<open>lines 1163-1184: the first call of the reader, the look-back loop, the decoder and
      the cursor of a call that never stored \<^verbatim>\<open>last_index\<close>\<close>
  "extract_and_decode checkTimestamps comp_name d cur g start_time end_time
     nof_prev_timestamps raw_flag nof cmplt =
     (case extract_data g cur start_time end_time nof_prev_timestamps of
        Inl e \<Rightarrow> Some (Inl e)
      | Inr r0 \<Rightarrow>
          (case (if nof_prev_timestamps \<noteq> 0
                 then lookback g start_time end_time nof_prev_timestamps r0
                 else Some (Inr r0)) of
             None \<Rightarrow> None
           | Some (Inl e) \<Rightarrow> Some (Inl e)
           | Some (Inr (raw, prev, cur1)) \<Rightarrow>
               Some (ebind
                 (case raw of
                    Some bytes \<Rightarrow>
                      process_datalog checkTimestamps comp_name d cur1 bytes
                        (dataframe_byte_size g) (timestamp_byte_size g) raw_flag
                        (Some (Fin start_time)) prev
                  | None \<Rightarrow>
                      process_datalog_of_list comp_name d cur1
                        (dataframe_byte_size g) (timestamp_byte_size g) raw_flag
                        (Some (Fin start_time)) prev checkTimestamps)
                 (\<lambda>(out, cur2, w). Inr (out, finish_cursor nof cmplt cur2, w)))))"

definition locate_window ::
  "acquisition \<Rightarrow> descriptor \<Rightarrow> fl \<Rightarrow> fl \<Rightarrow> byte list \<Rightarrow> int
   \<Rightarrow> error + (geometry \<times> rat \<times> fl \<times> int \<times> int \<times> int) option" where
  \<comment> \<open>lines 903-962 and 1162, for the bytes of the file and the payload size of a
      packet: nothing for \<^verbatim>\<open>return [],[]\<close>, or the geometry, the start time, the end
      time clamped to the acquisition, \<^verbatim>\<open>nof_prev_timestamps\<close>, the number of whole
      packets and the size of a packet. A start time that is not finite has raised at
      line 925. The last test is the allocation of line 967, which refuses a negative
      size.\<close>
  "locate_window acq d start_time end_time file dps =
     (let file_size = int (length file);
          cmplt = dps + 4;
          nof = file_size div cmplt;
          s_dim = get_or (dim d) 1;
          s_data_type_len = check_type_length (data_type d);
          spts = batch_samples_per_ts d;
          dataframe = (if spts \<noteq> 0 then spts * s_dim * s_data_type_len
                       else s_dim * s_data_type_len);
          timestamp = (if spts \<noteq> 0 then 8 else 0 :: nat);
          odr_b = py_float (batch_odr_of d);
          tot_file_data_and_times_bytes = file_size - nof * 4
      in if dataframe + timestamp = 0 then Inl ZeroDivisionError
         else
           let tot_timestamps_bytes =
                 (tot_file_data_and_times_bytes div int (dataframe + timestamp)) * int timestamp;
               tot_data_bytes = tot_file_data_and_times_bytes - tot_timestamps_bytes
           in if s_data_type_len * s_dim = 0 then Inl ZeroDivisionError
              else
                let tot_data_samples =
                      py_int (of_int tot_data_bytes / of_nat (s_data_type_len * s_dim))
                in ebind (math_floor (fl_mul odr_b start_time)) (\<lambda>start_sample_idx.
                   let start_data_bytes_idx = start_sample_idx * int s_data_type_len * int s_dim
                   in ebind (if spts \<noteq> 0
                             then ebind (int_truediv start_sample_idx (int spts)) math_floor
                             else Inr 0) (\<lambda>nof_timestamps_in_start.
                      ebind (if spts \<noteq> 0 then Inr None
                             else
                               ebind (if \<not> fl_eq end_time (Fin (- 1))
                                      then int_of_float (fl_mul odr_b end_time)
                                      else Inr (- 1)) (\<lambda>sample_end0.
                               ebind (int_of_float (fl_mul odr_b start_time)) (\<lambda>sample_start.
                                 Inr (Some (sample_start,
                                   if sample_end0 > tot_data_samples \<or> sample_end0 = - 1
                                   then tot_data_samples else sample_end0))))) (\<lambda>samples.
                      if (case samples of None \<Rightarrow> False
                          | Some (sample_start, sample_end) \<Rightarrow> sample_start \<ge> tot_data_samples)
                      then Inr None
                      else
                        let start_data_and_times_bytes_idx =
                              start_data_bytes_idx + nof_timestamps_in_start * int timestamp
                        in ebind (ebind (int_truediv start_data_and_times_bytes_idx dps)
                                    math_floor) (\<lambda>nof_counter_in_start.
                           let last_ts = py_float (acquisition_duration acq);
                               end_time' = (if fl_eq end_time (Fin (- 1))
                                               \<or> fl_greater end_time last_ts
                                            then last_ts else end_time)
                           in if fl_greater start_time last_ts then Inr None
                              else if dps < 0 then Inl ValueError
                              else
                                case start_time of
                                  Fin s \<Rightarrow>
                                    Inr (Some
                                      (\<lparr>file_bytes = file, data_packet_size = nat dps,
                                         cmplt_pkt_size = nat cmplt,
                                         nof_data_packet = nat nof,
                                         dataframe_byte_size = dataframe,
                                         timestamp_byte_size = timestamp,
                                         read_start_bytes =
                                           (case samples of None \<Rightarrow> 0
                                            | Some (sample_start, sample_end) \<Rightarrow>
                                                sample_start * int dataframe),
                                         read_end_bytes =
                                           (case samples of None \<Rightarrow> 0
                                            | Some (sample_start, sample_end) \<Rightarrow>
                                                sample_end * int dataframe),
                                         start_idx = start_data_and_times_bytes_idx
                                           + nof_counter_in_start * 4,
                                         last_timestamp = acquisition_duration acq,
                                         s_samples_per_ts = spts,
                                         batch_odr = batch_odr_of d\<rparr>,
                                       s, end_time', max 0 (nof_timestamps_in_start - 2),
                                       nof, cmplt))
                                | _ \<Rightarrow> Inl ValueError)))))"

definition batch_sensor ::
  "bool \<Rightarrow> acquisition \<Rightarrow> string \<Rightarrow> descriptor \<Rightarrow> cursor \<Rightarrow> fl \<Rightarrow> fl \<Rightarrow> bool
   \<Rightarrow> byte list \<Rightarrow> int \<Rightarrow> (error + (outcome \<times> cursor \<times> nat list)) option" where
  \<comment> \<open>lines 903-1184, for the bytes of the file and the payload size of a packet: a
      Sensor, or an Actuator that declares \<^verbatim>\<open>odr\<close>\<close>
  "batch_sensor checkTimestamps acq comp_name d cur start_time end_time raw_flag file dps =
     (case locate_window acq d start_time end_time file dps of
        Inl e \<Rightarrow> Some (Inl e)
      | Inr None \<Rightarrow> Some (Inr (Empty_lists, cur, []))
      | Inr (Some (g, s, end_time', nof_prev_timestamps, nof, cmplt)) \<Rightarrow>
          extract_and_decode checkTimestamps comp_name d cur g s end_time'
            nof_prev_timestamps raw_flag nof cmplt)"

definition data_packet_size_of :: "acquisition \<Rightarrow> descriptor \<Rightarrow> error + int" where
  \<comment> \<open>lines 855-868: the payload size of a packet on the transport of the acquisition;
      the bare \<^verbatim>\<open>raise\<close> for an unknown transport has no exception to raise again\<close>
  "data_packet_size_of acq d =
     (if interface acq = 0 then Inr (int (sd_dps d) - 4)
      else if interface acq = 1 then
        (case usb_dps d of None \<Rightarrow> Inl KeyError | Some u \<Rightarrow> Inr (int u))
      else if interface acq = 2 then Inr (int (ble_dps d))
      else if interface acq = 3 then Inr (int (serial_dps d))
      else Inl RuntimeError)"

definition get_data_and_timestamps_batch ::
  "bool \<Rightarrow> acquisition \<Rightarrow> string \<Rightarrow> descriptor \<Rightarrow> cursor \<Rightarrow> fl \<Rightarrow> fl \<Rightarrow> bool
   \<Rightarrow> (error + (outcome \<times> cursor \<times> nat list)) option" where
  \<comment> \<open>lines 846-1238, the extraction entry point: what it returns, the dictionary of the
      component after the call and the frames a warning was logged for; nothing when the
      call does not end. The first argument is the flag \<^verbatim>\<open>__checkTimestamps\<close>; the
      start and the end of the window are doubles.\<close>
  "get_data_and_timestamps_batch checkTimestamps acq comp_name d cur start_time end_time
     raw_flag =
     (case data_packet_size_of acq d of
        Inl e \<Rightarrow> Some (Inl e)
      | Inr dps \<Rightarrow>
          (case raw_file acq of
             None \<Rightarrow> Some (Inl MissingFileForSensorError)
           | Some file \<Rightarrow>
               if dps + 4 = 0 then Some (Inl ZeroDivisionError)
               else if c_type d = SENSOR \<or> (c_type d = ACTUATOR \<and> odr d \<noteq> None) then
                 batch_sensor checkTimestamps acq comp_name d cur start_time end_time raw_flag
                   file dps
               else if c_type d = ACTUATOR then
                 (if comp_name = MC_SLOW_TELEMETRY_COMP_NAME
                     \<or> comp_name = MC_FAST_TELEMETRY_COMP_NAME then
                    (if file = [] then Some (Inl NoDataAtIndexError)
                     else
                       case usb_dps d of
                         None \<Rightarrow> Some (Inl UnboundLocalError)
                       | Some u \<Rightarrow>
                           if u < 8 then Some (Inl OutsideModel)
                           else Some (process_datalog checkTimestamps comp_name d cur
                                  (remove_4bytes_every_n_optimized file (nat (dps + 4)))
                                  (u - 8) 8 raw_flag None None))
                  else Some (Inr (Py_None, cur, [])))
               else if c_type d = ALGORITHM then
                 (if algorithm_type d = IALGORITHM_TYPE_FFT then
                    (if file = [] then Some (Inl NoDataAtIndexError)
                     else Some (process_datalog checkTimestamps comp_name d cur
                            (remove_4bytes_every_n_optimized file (nat (dps + 4)))
                            (fft_length d * check_type_length (data_type d)) 0 raw_flag
                            (Some start_time) None))
                  else Some (Inr (None_None, cur, [])))
               else Some (Inr (Py_None, cur, []))))"

declare lookback.simps [code]

section \<open>Example acquisitions\<close>

definition plain_sensor :: descriptor where
  \<comment> \<open>a one-axis sensor of 8-bit samples at 1 Hz with no embedded timestamp, logged over
      USB in packets of 4 payload bytes\<close>
  "plain_sensor = \<lparr>c_type = SENSOR, sensor_category = ISENSOR_CLASS_OTHER,
     intermeasurement_time = 0, exposure_time = 0, adc_conversion_time = 0,
     measodr = None, odr = Some 1, algorithm_type = IALGORITHM_TYPE_OTHER,
     fft_sample_freq = 0, fft_length = 0, dim = Some 1, data_type = Int8,
     samples_per_ts = None, sensitivity = Some 1, st_ble_stream = [],
     telemetries = [], scaler_current = 1, scaler_voltage = 1, sd_dps = 8, usb_dps = Some 4,
     ble_dps = 4, serial_dps = 4\<rparr>"

definition three_packets :: "byte list" where
  \<comment> \<open>three packets with the counters 0, 4, 8 and the samples 1 to 12\<close>
  "three_packets =
     [0, 0, 0, 0, 1, 2, 3, 4, 4, 0, 0, 0, 5, 6, 7, 8, 8, 0, 0, 0, 9, 10, 11, 12]"

definition acq3 :: acquisition where
  "acq3 = \<lparr>interface = 1, raw_file = Some three_packets, acquisition_duration = 12\<rparr>"




definition fft_algorithm :: descriptor where
  \<comment> \<open>an FFT algorithm with spectra of two 8-bit values\<close>
  "fft_algorithm = plain_sensor\<lparr>c_type := ALGORITHM,
     algorithm_type := IALGORITHM_TYPE_FFT, fft_sample_freq := 1, fft_length := 2\<rparr>"


definition corrupted_geometry :: geometry where
  \<comment> \<open>two packets of 4 payload bytes; the second counter is 5 instead of 4\<close>
  "corrupted_geometry = \<lparr>file_bytes = [0, 0, 0, 0, 1, 2, 3, 4, 5, 0, 0, 0, 5, 6, 7, 8],
     data_packet_size = 4, cmplt_pkt_size = 8, nof_data_packet = 2, dataframe_byte_size = 1,
     timestamp_byte_size = 0, read_start_bytes = 0, read_end_bytes = 6, start_idx = 0,
     last_timestamp = 12, s_samples_per_ts = 0, batch_odr = 1\<rparr>"

definition before_first_packet :: "cursor \<Rightarrow> xstate" where
  "before_first_packet cur = \<lparr>loc_last_index = 0, loc_missing_bytes = 0, byte_chest = [],
     raw_data_array = [], skip_counter_check = False, loc_prev_timestamp = None,
     loc_extracted_timestamp = None, loc_end_time = Fin 6, end_time_flag = False,
     comp_status = cur\<rparr>"

definition after_first_packet :: xstate where
  "after_first_packet = (before_first_packet (fresh_cursor\<lparr>prev_data_byte_counter := Some 0\<rparr>))
     \<lparr>byte_chest := [1, 2, 3, 4]\<rparr>"

section \<open>Example inputs of the properties\<close>

definition restart_packets :: "byte list" where
  \<comment> \<open>three packets of 4 payload bytes with the counters 0, 99, 4 and the samples 1 to 12\<close>
  "restart_packets =
     [0, 0, 0, 0, 1, 2, 3, 4, 99, 0, 0, 0, 5, 6, 7, 8, 4, 0, 0, 0, 9, 10, 11, 12]"

definition acq_restart :: acquisition where
  "acq_restart = \<lparr>interface = 1, raw_file = Some restart_packets, acquisition_duration = 12\<rparr>"


section \<open>Verified properties\<close>

subsection \<open>The carried time origin\<close>

lemma unpack_double_one: "unpack_double [0, 0, 0, 0, 0, 0, 0xF0, 0x3F] = Fin 1"
  by code_simp

lemma upt_2: "[0..<2] = [0, Suc 0]"
  by (simp add: upt_rec numeral_2_eq_2)

text \<open>
  Claim C7 says that after a call that emits samples the carried time origin \<open>ioffset\<close>
  is the last emitted sample time. With two samples per timestamp it is not: for one
  frame with timestamp 1 the emitted times are 0 and 1/2, and \<open>ioffset\<close> is 1, the
  timestamp of the frame.
\<close>

theorem ioffset_counterexample:
  "process_datalog False ''acc'' example_sensor fresh_cursor
     [5, 7, 0, 0, 0, 0, 0, 0, 0xF0, 0x3F] 2 8 False (Some (Fin 0)) None
   = Inr (Arrays (Float32, [[Fin 10], [Fin 14]]) [Fin 0, Fin (1 / 2)],
          fresh_cursor\<lparr>ioffset := Some (Fin 1)\<rparr>, [])
   \<and> Some (last [Fin 0, Fin (1 / 2)]) \<noteq> ioffset (fresh_cursor\<lparr>ioffset := Some (Fin 1)\<rparr>)"
  by code_simp

lemma filter_valid_same:
  "filter_valid ts ts = filter (\<lambda>t. \<not> fl_eq t (Fin (- 1))) ts"
  by (induction ts) (auto simp: filter_valid_def)

lemma last_filter_keep:
  "xs \<noteq> [] \<Longrightarrow> P (last xs) \<Longrightarrow> last (filter P xs) = last xs"
  by (induction xs rule: rev_induct) auto

text \<open>
  Claim C7, amended. After a call that decodes at least one frame, \<open>ioffset\<close> is the
  timestamp of the last frame. With at most one sample per timestamp that is the last
  entry of the returned sample times (unless it is the sentinel \<open>-1\<close>, which is
  dropped); with more it is the upper end, itself excluded, of the last interpolation
  interval.
\<close>

theorem ioffset_last_frame_timestamp:
  assumes "sample_times cur fp spts num_frames start_time prev_timestamp timestamps
             = Inr (samples_times, cur')"
    and "timestamps \<noteq> []"
  shows "ioffset cur' = Some (last timestamps)
         \<and> (spts \<le> 1 \<and> \<not> fl_eq (last timestamps) (Fin (- 1))
              \<longrightarrow> last (filter_valid samples_times samples_times) = last timestamps)"
proof (cases "1 < spts")
  case True
  then show ?thesis
    using assms
    by (auto simp: sample_times_def prepend_origin_def Let_def ebind_def unbound_def
        split: if_splits option.splits)
next
  case False
  then have "samples_times = timestamps" and "ioffset cur' = Some (last timestamps)"
    using assms by (auto simp: sample_times_def)
  then show ?thesis
    using assms(2) by (simp add: filter_valid_same last_filter_keep)
qed

theorem ioffset_last_frame_timestamp_witness:
  "sample_times fresh_cursor (Some (Fin 1)) 1 2 (Some (Fin 0)) None [Fin 1, Fin 2]
     = Inr ([Fin 1, Fin 2], fresh_cursor\<lparr>ioffset := Some (Fin 2)\<rparr>)
   \<and> [Fin 1, Fin 2] \<noteq> []
   \<and> ioffset (fresh_cursor\<lparr>ioffset := Some (Fin 2)\<rparr>) = Some (last [Fin 1, Fin 2])
   \<and> last (filter_valid [Fin 1, Fin 2] [Fin 1, Fin 2]) = last [Fin 1, Fin 2]"
proof -
  have r: "sample_times fresh_cursor (Some (Fin 1)) 1 2 (Some (Fin 0)) None [Fin 1, Fin 2]
     = Inr ([Fin 1, Fin 2], fresh_cursor\<lparr>ioffset := Some (Fin 2)\<rparr>)"
    by (simp add: sample_times_def)
  have n: "[Fin 1, Fin 2] \<noteq> []" by simp
  show ?thesis
    using ioffset_last_frame_timestamp [OF r n] r by (simp add: fl_eq_def)
qed

subsection \<open>Successive windows\<close>

text \<open>
  Claim C1 says that \<open>extract(0, T1)\<close> followed by \<open>extract(T1, T2)\<close> on the same cursor
  returns what \<open>extract(0, T2)\<close> returns. On the file of three packets with the samples
  1 to 12, the window from 0 to 1 returns the sample 1 and the window from 1 to 6 then
  returns 2, 3, 4, 9, 10: the second packet is skipped. The window from 0 to 6 on a fresh
  cursor returns 1 to 6.
\<close>

theorem resumed_window_skips_packet:
  "get_data_and_timestamps_batch False acq3 ''acc'' plain_sensor fresh_cursor (Fin 0) (Fin 1) True
     = Some (Inr (Arrays (Int8, [[Fin 1]]) [Fin 1],
         \<lparr>last_index = Some 5, missing_bytes = Some 3, saved_bytes = Some 1,
            is_same_dps = None, prev_data_byte_counter = Some 0, is_first_chunk = None,
            ioffset = Some (Fin 1)\<rparr>, []))
   \<and> get_data_and_timestamps_batch False acq3 ''acc'' plain_sensor
       \<lparr>last_index = Some 5, missing_bytes = Some 3, saved_bytes = Some 1,
          is_same_dps = None, prev_data_byte_counter = Some 0, is_first_chunk = None,
          ioffset = Some (Fin 1)\<rparr> (Fin 1) (Fin 6) True
     = Some (Inr (Arrays (Int8, [[Fin 2], [Fin 3], [Fin 4], [Fin 9], [Fin 10]])
           [Fin 2, Fin 3, Fin 4, Fin 5, Fin 6],
         \<lparr>last_index = Some 22, missing_bytes = Some 2, saved_bytes = Some 5,
            is_same_dps = Some False, prev_data_byte_counter = Some 0, is_first_chunk = None,
            ioffset = Some (Fin 6)\<rparr>, []))
   \<and> get_data_and_timestamps_batch False acq3 ''acc'' plain_sensor fresh_cursor (Fin 0) (Fin 6) True
     = Some (Inr (Arrays (Int8, [[Fin 1], [Fin 2], [Fin 3], [Fin 4], [Fin 5], [Fin 6]])
           [Fin 1, Fin 2, Fin 3, Fin 4, Fin 5, Fin 6],
         \<lparr>last_index = Some 14, missing_bytes = Some 2, saved_bytes = Some 6,
            is_same_dps = None, prev_data_byte_counter = Some 4, is_first_chunk = None,
            ioffset = Some (Fin 6)\<rparr>, []))"
  by code_simp

subsection \<open>Counter validation\<close>

lemma packet_loop_append:
  "packet_loop g saved start_time (ms @ ns) st =
     ebind (packet_loop g saved start_time ms st) (\<lambda>r.
       case r of
         Next st' \<Rightarrow> packet_loop g saved start_time ns st'
       | Skip st' \<Rightarrow> packet_loop g saved start_time ns st'
       | Break st' \<Rightarrow> Inr (Break st')
       | Return_short st' \<Rightarrow> Inr (Return_short st'))"
proof (induction ms arbitrary: st)
  case Nil
  show ?case by (simp add: ebind_def)
next
  case (Cons m ms)
  show ?case
    by (cases "packet_iter g saved start_time m st")
       (auto simp add: ebind_def Cons.IH split: flow.splits)
qed

lemma read_packet_keeps_chest:
  assumes "read_packet g saved n st = Inr (Next (st1, data_bytes, counter_bytes))"
  shows "byte_chest st1 = byte_chest st \<and> raw_data_array st1 = raw_data_array st
         \<and> prev_data_byte_counter (comp_status st1) = prev_data_byte_counter (comp_status st)
         \<and> is_first_chunk (comp_status st1) = is_first_chunk (comp_status st)"
  using assms
  by (auto simp add: read_packet_def Let_def ebind_def set_cursor_def
      split: if_splits sum.splits)

text \<open>
  The rule of lines 1040-1048. When the counter of the packet that was read and the
  counter recorded before it differ by anything other than the payload size of a packet,
  the loop over the packets ends with \<open>DataCorruptedException\<close>, and so does
  \<^verbatim>\<open>__extract_data\<close>; except that for the packet number 0 of the call, a recorded
  counter of 0 and a cursor whose \<^verbatim>\<open>is_first_chunk\<close> is absent or true, the loop goes
  on with the next packet, and the payload of the packet is not added to the byte chest
  or the output. The packet number is counted from the resume offset of the call, not
  from the start of the file.
\<close>

lemma counter_mismatch_rule:
  assumes rd: "read_packet g saved n st = Inr (Next (st1, data_bytes, counter_bytes))"
    and chk: "\<not> skip_counter_check st1"
    and cnt: "unpack_I counter_bytes = Inr counter"
    and prv: "prev_data_byte_counter (comp_status st) = Some prev"
    and mis: "counter - prev \<noteq> int (data_packet_size g)"
  shows "packet_loop g saved start_time (n # ns) st =
           (if get_or (is_first_chunk (comp_status st)) True \<and> n = 0 \<and> prev = 0
            then packet_loop g saved start_time ns st1
            else Inl DataCorruptedException)
       \<and> byte_chest st1 = byte_chest st \<and> raw_data_array st1 = raw_data_array st
       \<and> (extract_start g cur end_time k = Inr st0
            \<and> saved = get_or (saved_bytes cur) 0
            \<and> [0..<nof_data_packet g + 1] = ms @ n # ns
            \<and> packet_loop g saved start_time ms st0 = Inr (Next st)
            \<and> \<not> (get_or (is_first_chunk (comp_status st)) True \<and> n = 0 \<and> prev = 0)
          \<longrightarrow> extract_data g cur start_time end_time k = Inl DataCorruptedException)"
proof -
  note k = read_packet_keeps_chest [OF rd]
  have cc: "check_counter g n st1 counter_bytes =
              (if get_or (is_first_chunk (comp_status st)) True \<and> n = 0 \<and> prev = 0
               then Inr (Skip st1) else Inl DataCorruptedException)"
    using chk cnt prv mis k by (simp add: check_counter_def ebind_def)
  have loop: "packet_loop g saved start_time (n # ns) st =
           (if get_or (is_first_chunk (comp_status st)) True \<and> n = 0 \<and> prev = 0
            then packet_loop g saved start_time ns st1
            else Inl DataCorruptedException)"
    using rd cc by (simp add: packet_iter_def ebind_def)
  have fatal: "extract_data g cur start_time end_time k = Inl DataCorruptedException"
    if "extract_start g cur end_time k = Inr st0" "saved = get_or (saved_bytes cur) 0"
      "[0..<nof_data_packet g + 1] = ms @ n # ns"
      "packet_loop g saved start_time ms st0 = Inr (Next st)"
      "\<not> (get_or (is_first_chunk (comp_status st)) True \<and> n = 0 \<and> prev = 0)"
  proof -
    have "packet_loop g saved start_time (n # ns) st = Inl DataCorruptedException"
      using loop that(5) by (simp del: packet_loop.simps)
    hence "packet_loop g saved start_time (ms @ n # ns) st0 = Inl DataCorruptedException"
      using that(4) by (simp add: packet_loop_append ebind_def del: packet_loop.simps)
    thus ?thesis
      using that(1,2,3) by (simp add: extract_data_def ebind_def del: packet_loop.simps upt_Suc)
  qed
  show ?thesis
    using loop k fatal by blast
qed

text \<open>
  Claim C2 says that a counter mismatch is tolerated only on the very first packet of a
  fresh cursor, and is fatal on a resumed cursor. On the file of three packets with the
  counters 0, 99 and 4, the window from 0 to 4 returns the samples 1 to 4 and leaves a
  cursor that resumes at offset 8 with the recorded counter 0. The window from 4 to 8 on
  that cursor then reads the packet with the counter 99 as its packet number 0: the
  packet is dropped and the call returns the samples 9 to 12 of the third packet with no
  error. The window from 0 to 8 on a fresh cursor raises \<open>DataCorruptedException\<close> at
  the same packet.
\<close>

theorem resumed_cursor_tolerates_mismatch:
  "get_data_and_timestamps_batch False acq_restart ''acc'' plain_sensor fresh_cursor
       (Fin 0) (Fin 4) True
     = Some (Inr (Arrays (Int8, [[Fin 1], [Fin 2], [Fin 3], [Fin 4]])
           [Fin 1, Fin 2, Fin 3, Fin 4],
         \<lparr>last_index = Some 8, missing_bytes = Some 0, saved_bytes = Some 4,
            is_same_dps = None, prev_data_byte_counter = Some 0, is_first_chunk = None,
            ioffset = Some (Fin 4)\<rparr>, []))
   \<and> get_data_and_timestamps_batch False acq_restart ''acc'' plain_sensor
       \<lparr>last_index = Some 8, missing_bytes = Some 0, saved_bytes = Some 4,
          is_same_dps = None, prev_data_byte_counter = Some 0, is_first_chunk = None,
          ioffset = Some (Fin 4)\<rparr> (Fin 4) (Fin 8) True
     = Some (Inr (Arrays (Int8, [[Fin 9], [Fin 10], [Fin 11], [Fin 12]])
           [Fin 5, Fin 6, Fin 7, Fin 8],
         \<lparr>last_index = Some 24, missing_bytes = Some 0, saved_bytes = Some 4,
            is_same_dps = Some False, prev_data_byte_counter = Some 4,
            is_first_chunk = None, ioffset = Some (Fin 8)\<rparr>, []))
   \<and> get_data_and_timestamps_batch False acq_restart ''acc'' plain_sensor fresh_cursor
       (Fin 0) (Fin 8) True
     = Some (Inl DataCorruptedException)"
  by code_simp

subsection \<open>Interpolation of the sample times\<close>

lemma length_slice_assign:
  "i + length vs \<le> length xs \<Longrightarrow> length (slice_assign xs i vs) = length xs"
  by (simp add: slice_assign_def)

lemma length_concat_blocks:
  "(\<And>i. i < n \<Longrightarrow> length (f i) = m) \<Longrightarrow> length (concat (map f [0..<n])) = n * m"
  by (induction n) auto

lemma fold_slice_assign:
  assumes "\<And>i. i < n \<Longrightarrow> length (f i) = m" and "n * m \<le> length xs"
  shows "fold (\<lambda>ii acc. slice_assign acc (ii * m) (f ii)) [0..<n] xs
         = concat (map f [0..<n]) @ drop (n * m) xs"
  using assms
proof (induction n)
  case 0
  then show ?case by simp
next
  case (Suc n)
  have len: "length (concat (map f [0..<n])) = n * m"
    using Suc.prems(1) by (intro length_concat_blocks) simp
  have IH: "fold (\<lambda>ii acc. slice_assign acc (ii * m) (f ii)) [0..<n] xs
         = concat (map f [0..<n]) @ drop (n * m) xs"
    using Suc by simp
  have fn: "length (f n) = m" using Suc.prems(1) by simp
  have "fold (\<lambda>ii acc. slice_assign acc (ii * m) (f ii)) [0..<Suc n] xs
        = slice_assign (concat (map f [0..<n]) @ drop (n * m) xs) (n * m) (f n)"
    by (simp add: IH)
  also have "\<dots> = concat (map f [0..<n]) @ f n @ drop (n * m + m) xs"
    using len fn by (simp add: slice_assign_def add.commute)
  finally show ?case by (simp add: add.commute)
qed

lemma nth_concat_blocks:
  assumes "\<And>i. i < n \<Longrightarrow> length (f i) = m" and "ii < n" and "k < m"
  shows "concat (map f [0..<n]) ! (ii * m + k) = f ii ! k"
  using assms
proof (induction n)
  case 0
  then show ?case by simp
next
  case (Suc n)
  have len: "length (concat (map f [0..<n])) = n * m"
    using Suc.prems(1) by (intro length_concat_blocks) simp
  show ?case
  proof (cases "ii < n")
    case True
    then have "Suc ii * m \<le> n * m"
      by (intro mult_le_mono1) simp
    then have "ii * m + k < n * m"
      using Suc.prems(3) by simp
    then show ?thesis using Suc True len by (simp add: nth_append)
  next
    case False
    then have "ii = n" using Suc.prems(2) by simp
    then show ?thesis using len Suc.prems by (simp add: nth_append)
  qed
qed

lemma length_linspace: "length (linspace a b n) = n"
  by (simp add: linspace_def Let_def)

lemma length_interp_frame: "length (interp_frame p spts ts ii) = spts"
  by (simp add: interp_frame_def Let_def length_linspace)

lemma nth_linspace:
  "k < n \<Longrightarrow> linspace a b n ! k =
     (let delta = fl_sub b a; step = fl_div delta (Fin (of_nat n))
      in if fl_eq step (Fin 0)
         then fl_add (fl_mul (fl_div (Fin (of_nat k)) (Fin (of_nat n))) delta) a
         else fl_add (fl_mul (Fin (of_nat k)) step) a)"
  by (simp add: linspace_def Let_def)

lemma interpolate_nth:
  assumes "ii < frames" "k < spts"
  shows "interpolate p spts frames ts ! (ii * spts + k) = interp_frame p spts ts ii ! k"
proof -
  have "interpolate p spts frames ts
        = concat (map (interp_frame p spts ts) [0..<frames])
          @ drop (frames * spts) (replicate (frames * spts) (Fin (- 1)))"
    unfolding interpolate_def
    by (rule fold_slice_assign) (simp_all add: length_interp_frame)
  then have "interpolate p spts frames ts = concat (map (interp_frame p spts ts) [0..<frames])"
    by simp
  then show ?thesis
    using nth_concat_blocks [of frames "interp_frame p spts ts" spts ii k] assms
    by (simp add: length_interp_frame)
qed

text \<open>
  Claim C5 says that beyond a gap of 1.33 frame periods the sample times are spaced over
  the interval one frame period wide that ends at the timestamp of the frame, and over
  the interval from the previous timestamp otherwise. The source compares the gap with
  the double \<^verbatim>\<open>frame_period + frame_period * 0.33\<close>, which is neither the real number
  1.33 frame periods nor the double \<^verbatim>\<open>1.33 * frame_period\<close>. For a frame period of
  1, two samples per timestamp and a frame at the double nearest to 1.33 after the
  origin 0, the gap exceeds 1.33 frame periods, and the source spaces the samples from
  0, not from 0.33. For a frame period of 15 and a frame at the double
  \<^verbatim>\<open>1.33 * 15\<close>, the gap does not exceed that double, and the source spaces the
  samples from \<^verbatim>\<open>1.33 * 15 - 15\<close>, not from 0.
\<close>

theorem interpolation_threshold_counterexample:
  "sample_times fresh_cursor (Some (Fin 1)) 2 1 (Some (Fin 0)) None [rd64 (133 / 100)]
     = Inr ([Fin 0, Fin (748723438050345 / 1125899906842624)],
            fresh_cursor\<lparr>ioffset := Some (Fin (748723438050345 / 562949953421312))\<rparr>)
   \<and> rd64 (133 / 100) = Fin (748723438050345 / 562949953421312)
   \<and> (133 / 100 * 1 :: rat) < \<bar>748723438050345 / 562949953421312 - 0\<bar>
   \<and> Fin 0 \<noteq> Fin (748723438050345 / 562949953421312 - 1)
   \<and> sample_times fresh_cursor (Some (Fin 15)) 2 1 (Some (Fin 0)) None
        [fl_mul (rd64 (133 / 100)) (Fin 15)]
     = Inr ([Fin (348325283679437 / 70368744177664), Fin (876090865011917 / 70368744177664)],
            fresh_cursor\<lparr>ioffset := Some (Fin (1403856446344397 / 70368744177664))\<rparr>)
   \<and> fl_mul (rd64 (133 / 100)) (Fin 15) = Fin (1403856446344397 / 70368744177664)
   \<and> \<not> fl_greater (fl_abs (fl_sub (fl_mul (rd64 (133 / 100)) (Fin 15)) (Fin 0)))
          (fl_mul (rd64 (133 / 100)) (Fin 15))
   \<and> Fin (348325283679437 / 70368744177664) \<noteq> Fin 0"
  by code_simp

text \<open>
  Claim C5, amended. With \<open>samples_per_ts = N > 1\<close>, the sample time \<open>k < N\<close> of frame
  \<open>ii\<close> is \<open>start + k * step\<close>, computed in doubles with every operation rounded, where
  \<open>step = (t1 - start) / N\<close>, \<open>t1\<close> is the timestamp of the frame and \<open>start\<close> is the
  previous frame timestamp \<open>t0\<close> (the carried time origin for the first frame); but
  when the frame period is positive and the gap \<open>|t1 - t0|\<close> is greater than the double
  \<^verbatim>\<open>frame_period + frame_period * 0.33\<close>, \<open>start\<close> is \<open>t1 - frame_period\<close>. When the
  step rounds to zero the sample time is \<open>start + (k / N) * (t1 - start)\<close>.
\<close>

theorem interpolation_rounded:
  assumes "1 < spts"
    and "sample_times cur (Some frame_period) spts num_frames start_time prev_timestamp
           timestamps = Inr (samples_times, cur')"
    and "ii < num_frames" and "k < spts"
    and "prepend_origin cur start_time prev_timestamp timestamps ! ii = t0"
    and "prepend_origin cur start_time prev_timestamp timestamps ! (ii + 1) = t1"
  shows "samples_times ! (ii * spts + k) =
           (let start =
                  (if fl_greater frame_period (Fin 0)
                      \<and> fl_greater (fl_abs (fl_sub t1 t0))
                           (fl_add frame_period (fl_mul frame_period (rd64 (33 / 100))))
                   then fl_sub t1 frame_period else t0);
                delta = fl_sub t1 start;
                step = fl_div delta (Fin (of_nat spts))
            in if fl_eq step (Fin 0)
               then fl_add (fl_mul (fl_div (Fin (of_nat k)) (Fin (of_nat spts))) delta) start
               else fl_add (fl_mul (Fin (of_nat k)) step) start)"
proof -
  let ?ts = "prepend_origin cur start_time prev_timestamp timestamps"
  have st: "samples_times = interpolate frame_period spts num_frames ?ts"
    using assms(1,2,3) by (auto simp: sample_times_def Let_def ebind_def unbound_def)
  have "samples_times ! (ii * spts + k) = interp_frame frame_period spts ?ts ii ! k"
    unfolding st using assms(3,4) by (rule interpolate_nth)
  also have "\<dots> = linspace
       (if fl_greater frame_period (Fin 0)
           \<and> fl_greater (fl_abs (fl_sub t1 t0))
                (fl_add frame_period (fl_mul frame_period (rd64 (33 / 100))))
        then fl_sub t1 frame_period else t0) t1 spts ! k"
    using assms(5,6) by (simp add: interp_frame_def Let_def)
  finally show ?thesis
    using assms(4) by (simp add: nth_linspace Let_def)
qed

theorem interpolation_rounded_witness:
  "sample_times fresh_cursor (Some (Fin 1)) 2 2 (Some (Fin 0)) None [Fin 1, Fin 3]
     = Inr ([Fin 0, Fin (1 / 2), Fin 2, Fin (5 / 2)], fresh_cursor\<lparr>ioffset := Some (Fin 3)\<rparr>)
   \<and> [Fin 0, Fin (1 / 2), Fin 2, Fin (5 / 2)] ! (1 * 2 + 1) = Fin (5 / 2)
   \<and> fl_add (fl_mul (Fin 1) (fl_div (fl_sub (Fin 3) (fl_sub (Fin 3) (Fin 1))) (Fin 2)))
        (fl_sub (Fin 3) (Fin 1)) = Fin (5 / 2)"
proof -
  have r: "sample_times fresh_cursor (Some (Fin 1)) 2 2 (Some (Fin 0)) None [Fin 1, Fin 3]
     = Inr ([Fin 0, Fin (1 / 2), Fin 2, Fin (5 / 2)], fresh_cursor\<lparr>ioffset := Some (Fin 3)\<rparr>)"
    by code_simp
  have p0: "prepend_origin fresh_cursor (Some (Fin 0)) None [Fin 1, Fin 3] ! 1 = Fin 1"
    by code_simp
  have p1: "prepend_origin fresh_cursor (Some (Fin 0)) None [Fin 1, Fin 3] ! (1 + 1) = Fin 3"
    by code_simp
  have gap: "fl_greater (Fin 1) (Fin 0)
      \<and> fl_greater (fl_abs (fl_sub (Fin 3) (Fin 1)))
           (fl_add (Fin 1) (fl_mul (Fin 1) (rd64 (33 / 100))))"
    by code_simp
  have step: "\<not> fl_eq (fl_div (fl_sub (Fin 3) (fl_sub (Fin 3) (Fin 1))) (Fin 2)) (Fin 0)"
    by code_simp
  have v: "fl_add (fl_mul (Fin 1) (fl_div (fl_sub (Fin 3) (fl_sub (Fin 3) (Fin 1))) (Fin 2)))
        (fl_sub (Fin 3) (Fin 1)) = Fin (5 / 2)"
    by code_simp
  have "[Fin 0, Fin (1 / 2), Fin 2, Fin (5 / 2)] ! (1 * 2 + 1) =
          fl_add (fl_mul (Fin 1) (fl_div (fl_sub (Fin 3) (fl_sub (Fin 3) (Fin 1))) (Fin 2)))
            (fl_sub (Fin 3) (Fin 1))"
    using interpolation_rounded [of 2 fresh_cursor "Fin 1" 2 "Some (Fin 0)" None
        "[Fin 1, Fin 3]" _ _ 1 1 "Fin 1" "Fin 3", OF _ r _ _ p0 p1] gap step
    by (simp add: Let_def)
  then show ?thesis
    using r v by simp
qed

subsection \<open>Timestamp repair\<close>



lemma slice_assign_twice:
  "length vs = length ws \<Longrightarrow> i + length vs \<le> length xs
   \<Longrightarrow> slice_assign (slice_assign xs i vs) i ws = slice_assign xs i ws"
  by (simp add: slice_assign_def)








subsection \<open>Unit scaler\<close>

lemma chunks_props:
  assumes "0 < k" and "length xs mod k = 0"
  shows "length (chunks k xs) = length xs div k
         \<and> (\<forall>r < length xs div k. length (chunks k xs ! r) = k
               \<and> (\<forall>c < k. chunks k xs ! r ! c = xs ! (r * k + c)))"
  using assms
proof (induction k xs rule: chunks.induct)
  case (1 k)
  then show ?case by simp
next
  case (2 k x xs)
  let ?ys = "x # xs"
  have kle: "k \<le> length ?ys"
    using "2.prems" by (metis length_greater_0_conv list.distinct(1) mod_less not_le not_less_iff_gr_or_eq)
  have dm: "length (drop k ?ys) mod k = 0"
    using "2.prems" kle by (simp add: le_mod_geq del: drop_Suc_Cons)
  have dv: "length ?ys div k = Suc (length (drop k ?ys) div k)"
    using "2.prems"(1) kle by (simp add: le_div_geq del: drop_Suc_Cons)
  have IH: "length (chunks k (drop k ?ys)) = length (drop k ?ys) div k
         \<and> (\<forall>r < length (drop k ?ys) div k. length (chunks k (drop k ?ys) ! r) = k
               \<and> (\<forall>c < k. chunks k (drop k ?ys) ! r ! c = drop k ?ys ! (r * k + c)))"
    using "2.IH" "2.prems"(1) dm by simp
  have c: "chunks k ?ys = take k ?ys # chunks k (drop k ?ys)"
    using "2.prems"(1) by simp
  show ?case
    unfolding c dv
  proof (intro conjI allI impI)
    show "length (take k ?ys # chunks k (drop k ?ys)) = Suc (length (drop k ?ys) div k)"
      using IH by simp
  next
    fix r assume r: "r < Suc (length (drop k ?ys) div k)"
    show "length ((take k ?ys # chunks k (drop k ?ys)) ! r) = k"
      using r IH kle by (cases r) (simp_all del: drop_Suc_Cons take_Suc_Cons)
  next
    fix r c assume r: "r < Suc (length (drop k ?ys) div k)" and cc: "c < k"
    show "(take k ?ys # chunks k (drop k ?ys)) ! r ! c = ?ys ! (r * k + c)"
    proof (cases r)
      case 0
      then show ?thesis using cc by (simp del: take_Suc_Cons)
    next
      case (Suc r')
      then have "chunks k (drop k ?ys) ! r' ! c = drop k ?ys ! (r' * k + c)"
        using r cc IH by simp
      also have "\<dots> = ?ys ! (k + (r' * k + c))"
        using kle by (simp del: drop_Suc_Cons)
      finally show ?thesis using Suc by (simp add: add.assoc del: drop_Suc_Cons)
    qed
  qed
qed

lemma reshape_rows_nth:
  assumes "reshape_rows k xs = Inr rows"
  shows "0 < k \<and> length rows = length xs div k
         \<and> (\<forall>r < length rows. length (rows ! r) = k
               \<and> (\<forall>c < k. rows ! r ! c = xs ! (r * k + c)))"
proof -
  have k: "0 < k" and m: "length xs mod k = 0" and rows: "rows = chunks k xs"
    using assms by (auto simp: reshape_rows_def split: if_splits)
  show ?thesis using chunks_props [OF k m] k rows by simp
qed

lemma map_map_nth:
  "r < length rows \<Longrightarrow> c < length (rows ! r) \<Longrightarrow> map (map f) rows ! r ! c = f (rows ! r ! c)"
  by simp

lemma unit_scaler_sensor:
  assumes "unit_scaler sensor_name d raw_flag dt data = Inr (Some (t, rows))"
    and "c_type d = SENSOR" and "r < length rows" and "c < length (rows ! r)"
  shows "if raw_flag then t = dt \<and> rows ! r ! c = data ! (r * length (rows ! r) + c)
         else if contains ''_ispu'' sensor_name
         then t = Int8 \<and> rows ! r ! c
                = to_int8 (fl_mul
                    ((if is_float_type dt then to_int8 else wrap_int8)
                       (data ! (r * length (rows ! r) + c)))
                    (py_float (get_or (sensitivity d) 1)))
         else t = Float32 \<and> rows ! r ! c
                = f32_scale (py_float (get_or (sensitivity d) 1))
                    (to_f32 (data ! (r * length (rows ! r) + c)))"
proof -
  let ?k = "if contains ''_ispu'' sensor_name then 64 else get_or (dim d) 1"
  obtain rows0 where r0: "reshape_rows ?k data = Inr rows0"
    and res: "(t, rows) = (if raw_flag then (dt, rows0)
        else let t' = (if contains ''_ispu'' sensor_name then Int8 else Float32)
             in (t', np_multiply t' (get_or (sensitivity d) 1) (astype dt t' rows0)))"
    using assms(1,2)
    by (auto simp: unit_scaler_def ebind_def Let_def split: sum.splits if_splits)
  note P = reshape_rows_nth [OF r0]
  have len: "length rows = length rows0"
    using res by (auto simp: np_multiply_def astype_def Let_def split: if_splits)
  have r': "r < length rows0" using assms(3) len by simp
  have lr: "length (rows ! r) = length (rows0 ! r)"
    using res r' by (auto simp: np_multiply_def astype_def Let_def split: if_splits)
  have w: "length (rows0 ! r) = ?k" using P r' by blast
  have c': "c < ?k" using assms(4) lr w by simp
  have v: "rows0 ! r ! c = data ! (r * length (rows ! r) + c)"
    using P r' c' lr w by auto
  have f: "is_float_type Float32" "\<not> is_float_type Int8"
    by (simp_all add: is_float_type_def)
  show ?thesis
    using res r' c' w v [symmetric] f
    by (auto simp: np_multiply_def astype_def Let_def split: if_splits)
qed

lemma unit_scaler_algorithm:
  assumes "unit_scaler sensor_name d raw_flag dt data = Inr (Some (t, rows))"
    and "c_type d = ALGORITHM" and "r < length rows" and "c < length (rows ! r)"
  shows "t = Float32 \<and> rows ! r ! c
           = (if raw_flag then to_f32 (data ! (r * length (rows ! r) + c))
              else f32_scale (py_float (get_or (sensitivity d) 1))
                     (to_f32 (data ! (r * length (rows ! r) + c))))"
proof -
  have f: "is_float_type Float32" by (simp add: is_float_type_def)
  obtain rows0 where r0: "reshape_rows (fft_length d) data = Inr rows0"
    and res: "t = Float32"
      "rows = (if raw_flag then map (map to_f32) rows0
               else map (map (f32_scale (py_float (get_or (sensitivity d) 1))))
                      (map (map to_f32) rows0))"
    using assms(1,2) f
    by (auto simp: unit_scaler_def ebind_def unbound_def np_multiply_def astype_def
        split: sum.splits if_splits)
  note P = reshape_rows_nth [OF r0]
  have r': "r < length rows0" using assms(3) res by (auto split: if_splits)
  have lr: "length (rows ! r) = length (rows0 ! r)"
    using res r' by (auto split: if_splits)
  have w: "length (rows0 ! r) = fft_length d" using P r' by blast
  have c': "c < fft_length d" using assms(4) lr w by simp
  have v: "rows0 ! r ! c = data ! (r * length (rows ! r) + c)"
    using P r' c' lr w by auto
  show ?thesis
    using res r' c' w v [symmetric] by (auto split: if_splits)
qed

lemma unit_scaler_actuator:
  assumes "unit_scaler sensor_name d raw_flag dt data = Inr (Some (t, rows))"
    and "c_type d = ACTUATOR" and "r < length rows" and "c < length (rows ! r)"
  shows "t = Float32 \<and> rows ! r ! c
           = (if sensor_name = MC_FAST_TELEMETRY_COMP_NAME \<and> \<not> raw_flag
              then scale_telemetry (scaler_current d) (scaler_voltage d)
                     (enabled_names (telemetries d) ! c)
                     (to_f32 (data ! (r * length (rows ! r) + c)))
              else to_f32 (data ! (r * length (rows ! r) + c)))"
proof -
  have f: "is_float_type Float32" by (simp add: is_float_type_def)
  obtain active rows0 where a: "get_active_mc_telemetries_names d sensor_name = Some active"
    and r0: "reshape_rows (length active) data = Inr rows0"
    and res: "t = Float32"
      "rows = (if sensor_name = MC_FAST_TELEMETRY_COMP_NAME \<and> \<not> raw_flag
               then map (\<lambda>row. map (\<lambda>(t, v).
                      scale_telemetry (scaler_current d) (scaler_voltage d) t v)
                      (zip active row)) (map (map to_f32) rows0)
               else map (map to_f32) rows0)"
    using assms(1,2) f
    by (auto simp: unit_scaler_def ebind_def astype_def
        split: sum.splits if_splits option.splits)
  note P = reshape_rows_nth [OF r0]
  have r': "r < length rows0" using assms(3) res by (auto split: if_splits)
  have w: "length (rows0 ! r) = length active" using P r' by blast
  have lr: "length (rows ! r) = length active"
    using res r' w by (auto split: if_splits)
  have c': "c < length active" using assms(4) lr by simp
  have v: "rows0 ! r ! c = data ! (r * length (rows ! r) + c)"
    using P r' c' lr by auto
  have act: "sensor_name = MC_FAST_TELEMETRY_COMP_NAME \<Longrightarrow> active = enabled_names (telemetries d)"
    using a by (auto simp: get_active_mc_telemetries_names_def MC_FAST_TELEMETRY_COMP_NAME_def
        split: if_splits)
  show ?thesis
    using res r' c' w v [symmetric] act by (auto split: if_splits)
qed

lemma chunks_single: "0 < k \<Longrightarrow> length xs = k \<Longrightarrow> chunks k xs = [xs]"
  by (cases xs) auto

text \<open>
  Claim C9 says that raw mode returns the values unchanged with the datatype preserved,
  and that scaled output is floating-point and equal to the raw value times the factor.
  For an FFT Algorithm in raw mode the 32-bit integers 16777217 and 3 come out as the
  32-bit floats 16777216 and 3. For a Sensor whose name contains \<open>_ispu\<close> and the
  sensitivity 50.7 the scaled output is an array of 8-bit integers, and the sample 3
  comes out as -104 (152.1 without its fraction, less 256). For another Sensor and the
  sensitivity 0.1 the sample 3 comes out as the 32-bit float 0.300000011920928955078125.
\<close>

theorem scaled_output_counterexample:
  "unit_scaler ''fft'' (fft_algorithm\<lparr>data_type := Int32\<rparr>) True Int32
       [Fin 16777217, Fin 3]
     = Inr (Some (Float32, [[Fin 16777216, Fin 3]]))
   \<and> unit_scaler ''acc_ispu'' (example_sensor\<lparr>sensitivity := Some (507 / 10)\<rparr>) False Int8
       (replicate 64 (Fin 3))
     = Inr (Some (Int8, [replicate 64 (Fin (- 104))]))
   \<and> \<not> is_float_type Int8
   \<and> unit_scaler ''acc'' (example_sensor\<lparr>sensitivity := Some (1 / 10)\<rparr>) False Int8 [Fin 3]
     = Inr (Some (Float32, [[Fin (5033165 / 16777216)]]))
   \<and> (5033165 / 16777216 :: rat) \<noteq> 3 * (1 / 10)"
  by code_simp

text \<open>
  Claim C9, amended. For the element in row \<open>r\<close> and column \<open>c\<close> of the array the unit
  scaler returns, and the decoded value \<open>v\<close> at that position: for a Sensor in raw mode the
  element is \<open>v\<close> and the element type is the decoded one; for a Sensor other than an ISPU
  one, scaled, the array holds 32-bit floats and the element is \<open>v\<close> converted to a
  32-bit float times the sensitivity, in 32-bit float arithmetic; for an ISPU Sensor,
  scaled, the array holds 8-bit integers and the element is \<open>v\<close> converted to 8 bits,
  times the sensitivity as a double, cast to 8 bits; for an FFT Algorithm the array holds
  32-bit floats in either mode, with \<open>v\<close> converted to a 32-bit float in raw mode and
  that times the sensitivity otherwise; for the Actuator telemetries the array holds
  32-bit floats in either mode, and for the fast telemetries, scaled, the element is the
  converted \<open>v\<close> times the current factor when the name of the channel contains \<open>i\<close>,
  else times the voltage factor when it contains \<open>v\<close>, else the converted \<open>v\<close>.
\<close>

theorem unit_scaler_elementwise:
  assumes "unit_scaler sensor_name d raw_flag dt data = Inr (Some (t, rows))"
    and "r < length rows" and "c < length (rows ! r)"
  shows "(c_type d = SENSOR \<and> raw_flag
            \<longrightarrow> t = dt \<and> rows ! r ! c = data ! (r * length (rows ! r) + c))
       \<and> (c_type d = SENSOR \<and> \<not> raw_flag \<and> \<not> contains ''_ispu'' sensor_name
            \<longrightarrow> t = Float32 \<and> rows ! r ! c
                  = f32_scale (py_float (get_or (sensitivity d) 1))
                      (to_f32 (data ! (r * length (rows ! r) + c))))
       \<and> (c_type d = SENSOR \<and> \<not> raw_flag \<and> contains ''_ispu'' sensor_name
            \<longrightarrow> t = Int8 \<and> rows ! r ! c
                  = to_int8 (fl_mul
                      ((if is_float_type dt then to_int8 else wrap_int8)
                         (data ! (r * length (rows ! r) + c)))
                      (py_float (get_or (sensitivity d) 1))))
       \<and> (c_type d = ALGORITHM
            \<longrightarrow> t = Float32 \<and> rows ! r ! c
                  = (if raw_flag then to_f32 (data ! (r * length (rows ! r) + c))
                     else f32_scale (py_float (get_or (sensitivity d) 1))
                            (to_f32 (data ! (r * length (rows ! r) + c)))))
       \<and> (c_type d = ACTUATOR
            \<longrightarrow> t = Float32 \<and> rows ! r ! c
                  = (if sensor_name = MC_FAST_TELEMETRY_COMP_NAME \<and> \<not> raw_flag
                     then scale_telemetry (scaler_current d) (scaler_voltage d)
                            (enabled_names (telemetries d) ! c)
                            (to_f32 (data ! (r * length (rows ! r) + c)))
                     else to_f32 (data ! (r * length (rows ! r) + c))))"
  using unit_scaler_sensor [OF assms(1) _ assms(2,3)]
    unit_scaler_algorithm [OF assms(1) _ assms(2,3)]
    unit_scaler_actuator [OF assms(1) _ assms(2,3)]
  by (auto split: if_splits)

theorem unit_scaler_elementwise_witness:
  "unit_scaler ''acc'' (example_sensor\<lparr>sensitivity := Some (1 / 10)\<rparr>) False Int32
       [Fin 16777217, Fin 3]
     = Inr (Some (Float32, [[Fin (13421773 / 8)], [Fin (5033165 / 16777216)]]))
   \<and> f32_scale (py_float (get_or (sensitivity (example_sensor\<lparr>sensitivity := Some (1 / 10)\<rparr>)) 1))
       (to_f32 ([Fin 16777217, Fin 3]
          ! (1 * length ([[Fin (13421773 / 8)], [Fin (5033165 / 16777216)]] ! 1) + 0)))
     = Fin (5033165 / 16777216)"
proof -
  let ?d = "example_sensor\<lparr>sensitivity := Some (1 / 10)\<rparr>"
  let ?rows = "[[Fin (13421773 / 8)], [Fin (5033165 / 16777216)]]"
  have r: "unit_scaler ''acc'' ?d False Int32 [Fin 16777217, Fin 3]
     = Inr (Some (Float32, ?rows))"
    by code_simp
  have a: "(1::nat) < length ?rows" by simp
  have b: "(0::nat) < length (?rows ! 1)" by simp
  have s: "c_type ?d = SENSOR \<and> \<not> False \<and> \<not> contains ''_ispu'' ''acc''"
    by code_simp
  have e: "?rows ! 1 ! 0
       = f32_scale (py_float (get_or (sensitivity ?d) 1))
           (to_f32 ([Fin 16777217, Fin 3] ! (1 * length (?rows ! 1) + 0)))"
    using unit_scaler_elementwise [OF r a b] s by blast
  have l: "?rows ! 1 ! 0 = Fin (5033165 / 16777216)" by simp
  have "f32_scale (py_float (get_or (sensitivity ?d) 1))
           (to_f32 ([Fin 16777217, Fin 3] ! (1 * length (?rows ! 1) + 0)))
        = Fin (5033165 / 16777216)"
    using e l by (rule trans [OF sym])
  then show ?thesis
    using r by (rule conjI [rotated])
qed

subsection \<open>A window after the end of the acquisition\<close>






end
